theory Spec2Isabelle
  imports Main "HOL-Library.Multiset"
begin

text \<open>
  A model of two parts of a cluster backup and restore orchestrator, and what is proved
  of them: the restore controller's reconciliation of one restore (validation, the
  patches of the status, execution and the final phase), and the item backupper
  (\<^verbatim>\<open>backupItem\<close> with its hooks, custom actions, volume snapshots and the write to the
  archive). Collaborators outside these two files are functions of their arguments;
  the calls made on them are kept in a list, so that it can be said what was called,
  in which order, and what was not.
\<close>

section \<open>Errors\<close>

text \<open>
  Go errors are values. \<open>Error\<close> is a plain error with a message, \<open>Wrap\<close> is
  \<^verbatim>\<open>errors.Wrap\<close>/\<^verbatim>\<open>errors.Wrapf\<close>/\<^verbatim>\<open>errors.WithMessage\<close> (a message in front of a cause),
  \<open>WithStack\<close> is \<^verbatim>\<open>errors.WithStack\<close>, and \<open>Aggregate\<close> is the non-nil result of
  \<^verbatim>\<open>kubeerrs.NewAggregate\<close>. A nil error is \<open>None\<close> of \<open>error option\<close>.
\<close>

datatype error =
    Error string
  | Wrap string error
  | WithStack error
  | Aggregate "error list"

text \<open>\<^verbatim>\<open>kubeerrs.NewAggregate(errs)\<close>: nil for an empty list, the aggregate otherwise.\<close>

definition NewAggregate :: "error list \<Rightarrow> error option" where
  "NewAggregate errs = (if errs = [] then None else Some (Aggregate errs))"

text \<open>\<^verbatim>\<open>err.Error()\<close>: the message of an error.\<close>

fun joinComma :: "string list \<Rightarrow> string" where
  "joinComma [] = []"
| "joinComma [s] = s"
| "joinComma (s # t # ss) = s @ '', '' @ joinComma (t # ss)"

primrec Error_string :: "error \<Rightarrow> string" where
  "Error_string (Error m) = m"
| "Error_string (Wrap m e) = m @ '': '' @ Error_string e"
| "Error_string (WithStack e) = Error_string e"
| "Error_string (Aggregate es) =
     (case map Error_string es of
        [m] \<Rightarrow> m
      | ms \<Rightarrow> ''['' @ joinComma ms @ '']'')"

section \<open>Restore controller (package controller)\<close>

subsection \<open>API objects\<close>

datatype backupPhase =
    BackupPhaseUnset
  | BackupPhaseNew
  | BackupPhaseFailedValidation
  | BackupPhaseInProgress
  | BackupPhaseCompleted
  | BackupPhasePartiallyFailed
  | BackupPhaseFailed
  | BackupPhaseDeleting

text \<open>
  The fields of \<^verbatim>\<open>api.Backup\<close> the restore controller reads. A start timestamp is an
  instant on the time line (an integer); \<^verbatim>\<open>a.After(b)\<close> is \<open>b < a\<close>.
\<close>

record backup =
  Backup_Name :: string
  Backup_Labels :: "(string \<times> string) list"
  Backup_Spec_StorageLocation :: string
  Backup_Status_Phase :: backupPhase
  Backup_Status_StartTimestamp :: int

datatype restorePhase =
    RestorePhaseUnset
  | RestorePhaseNew
  | RestorePhaseFailedValidation
  | RestorePhaseInProgress
  | RestorePhaseCompleted
  | RestorePhasePartiallyFailed
  | RestorePhaseFailed

text \<open>\<^verbatim>\<open>api.Restore\<close>, with the fields of \<^verbatim>\<open>Spec\<close> and \<^verbatim>\<open>Status\<close> written flat.\<close>

record restore =
  Restore_Namespace :: string
  Restore_Name :: string
  Spec_BackupName :: string
  Spec_ScheduleName :: string
  Spec_IncludedNamespaces :: "string list"
  Spec_ExcludedNamespaces :: "string list"
  Spec_IncludedResources :: "string list"
  Spec_ExcludedResources :: "string list"
  Status_Phase :: restorePhase
  Status_ValidationErrors :: "string list"
  Status_Warnings :: nat
  Status_Errors :: nat
  Status_FailureReason :: string

subsection \<open>mostRecentCompletedBackup\<close>

text \<open>
  The comparison handed to \<^verbatim>\<open>sort.Slice\<close> (line 375):
  \<^verbatim>\<open>backups[i].Status.StartTimestamp.After(backups[j].Status.StartTimestamp.Time)\<close>.
\<close>

definition startedAfter :: "backup \<Rightarrow> backup \<Rightarrow> bool" where
  "startedAfter a b = (Backup_Status_StartTimestamp b < Backup_Status_StartTimestamp a)"

text \<open>The loop of lines 378-382: the first backup of the slice whose phase is Completed.\<close>

fun firstCompleted :: "backup list \<Rightarrow> backup option" where
  "firstCompleted [] = None"
| "firstCompleted (b # bs) =
     (if Backup_Status_Phase b = BackupPhaseCompleted then Some b else firstCompleted bs)"

text \<open>
  \<^verbatim>\<open>sort.Slice\<close> belongs to Go's library; it is a parameter here. Go promises that the
  result is a rearrangement of the slice in which no later element is \<^verbatim>\<open>less\<close> than an
  earlier one, and nothing about the order of elements that compare equal (the sort is
  not stable). \<open>sortSliceOK\<close> is that promise for the comparison the controller uses.
\<close>

type_synonym sortSlice = "(backup \<Rightarrow> backup \<Rightarrow> bool) \<Rightarrow> backup list \<Rightarrow> backup list"

definition sortSliceOK :: "sortSlice \<Rightarrow> bool" where
  "sortSliceOK srt =
     (\<forall>xs. mset (srt startedAfter xs) = mset xs
          \<and> sorted_wrt (\<lambda>a b. \<not> startedAfter b a) (srt startedAfter xs))"

definition mostRecentCompletedBackup :: "sortSlice \<Rightarrow> backup list \<Rightarrow> backup option" where
  "mostRecentCompletedBackup srt backups = firstCompleted (srt startedAfter backups)"

text \<open>An insertion sort, one implementation of \<^verbatim>\<open>sort.Slice\<close>, for concrete runs.\<close>

fun insertBy :: "('a \<Rightarrow> 'a \<Rightarrow> bool) \<Rightarrow> 'a \<Rightarrow> 'a list \<Rightarrow> 'a list" where
  "insertBy lt x [] = [x]"
| "insertBy lt x (y # ys) = (if lt y x then y # insertBy lt x ys else x # y # ys)"

fun insertionSort :: "('a \<Rightarrow> 'a \<Rightarrow> bool) \<Rightarrow> 'a list \<Rightarrow> 'a list" where
  "insertionSort lt [] = []"
| "insertionSort lt (x # xs) = insertBy lt x (insertionSort lt xs)"


subsection \<open>Collaborators and controller state\<close>

text \<open>\<^verbatim>\<open>pkgrestore.Result\<close>: messages in three buckets.\<close>

record result =
  Result_Velero :: "string list"
  Result_Cluster :: "string list"
  Result_Namespaces :: "(string \<times> string list) list"

text \<open>
  \<^verbatim>\<open>persistence.BackupStore\<close>, the methods the controller calls; each tells whether the
  call fails.
\<close>

record backupStore =
  GetBackupContents :: "string \<Rightarrow> error option"
  GetBackupVolumeSnapshots :: "string \<Rightarrow> error option"
  PutRestoreLog :: "string \<Rightarrow> string \<Rightarrow> error option"
  PutRestoreResults :: "string \<Rightarrow> string \<Rightarrow> result \<Rightarrow> result \<Rightarrow> error option"

record backupInfo =
  info_backup :: "backup option"
  info_backupStore :: "backupStore option"

text \<open>
  A JSON merge patch between two restores, as \<^verbatim>\<open>jsonpatch.CreateMergePatch\<close> computes it:
  for every field, the new value when it differs and nothing otherwise.
\<close>

record restorePatch =
  p_BackupName :: "string option"
  p_ScheduleName :: "string option"
  p_IncludedNamespaces :: "string list option"
  p_ExcludedNamespaces :: "string list option"
  p_IncludedResources :: "string list option"
  p_ExcludedResources :: "string list option"
  p_Phase :: "restorePhase option"
  p_ValidationErrors :: "string list option"
  p_Warnings :: "nat option"
  p_Errors :: "nat option"
  p_FailureReason :: "string option"

text \<open>
  What the controller is built from: listers, clients, the restorer and the library
  functions that are not part of this file. Each is a function of its arguments.
  \<open>rc_ValidateIncludesExcludes\<close> is \<^verbatim>\<open>collections.ValidateIncludesExcludes\<close>,
  \<open>rc_List\<close> is the backup lister's \<^verbatim>\<open>List\<close> with the schedule-name selector,
  \<open>rc_Patch\<close> tells whether the API server refuses a patch.
\<close>

record restoreController =
  rc_ValidateIncludesExcludes :: "string list \<Rightarrow> string list \<Rightarrow> error list"
  rc_List :: "string \<Rightarrow> error + backup list"
  rc_Get :: "string \<Rightarrow> error + backup"
  rc_GetLocation :: "string \<Rightarrow> error + string"
  rc_newBackupStore :: "string \<Rightarrow> error + backupStore"
  rc_sortSlice :: sortSlice
  rc_Patch :: "string \<Rightarrow> string \<Rightarrow> restorePatch \<Rightarrow> error option"
  rc_newRestoreLogger :: "restore \<Rightarrow> error option"
  rc_GetRestoreItemActions :: "error option"
  rc_TempFile :: "string \<Rightarrow> error option"
  rc_Copy :: "string \<Rightarrow> error option"
  rc_Seek :: "string \<Rightarrow> error option"
  rc_Restore :: "restore \<Rightarrow> backup option \<Rightarrow> result \<times> result"
  rc_logDone :: "restore \<Rightarrow> error option"

text \<open>The calls on collaborators that leave a mark outside the controller.\<close>

datatype call =
    NewPluginManager
  | CleanupClients
  | RegisterRestoreAttempt string
  | RegisterRestoreValidationFailed string
  | RegisterRestoreFailed string
  | RegisterRestorePartialFailure string
  | RegisterRestoreSuccess string
  | PatchCall restorePatch
  | RestoreCall restore
  | PutRestoreLogCall string string
  | PutRestoreResultsCall string string

text \<open>
  The world around one reconciliation: the Restore object as the API server stores it,
  and the calls made so far.
\<close>

record world =
  stored :: restore
  calls :: "call list"

definition called :: "call \<Rightarrow> world \<Rightarrow> world" where
  "called c w = w\<lparr>calls := calls w @ [c]\<rparr>"

subsection \<open>validateAndComplete\<close>

definition nonRestorableResources :: "string list" where
  "nonRestorableResources =
     [''nodes'', ''events'', ''events.events.k8s.io'', ''backups.velero.io'',
      ''restores.velero.io'', ''resticrepositories.velero.io'']"

text \<open>
  \<^verbatim>\<open>velerov1api.ScheduleNameLabel\<close>, a constant of the API package, which is not among the
  sources; nothing below depends on its value.
\<close>

definition ScheduleNameLabel :: string where
  "ScheduleNameLabel = ''velero.io/schedule-name''"

definition backupXorScheduleProvided :: "restore \<Rightarrow> bool" where
  "backupXorScheduleProvided restore =
     (if Spec_BackupName restore \<noteq> [] \<and> Spec_ScheduleName restore \<noteq> [] then False
      else if Spec_BackupName restore = [] \<and> Spec_ScheduleName restore = [] then False
      else True)"

definition addValidationError :: "string \<Rightarrow> restore \<Rightarrow> restore" where
  "addValidationError msg restore =
     restore\<lparr>Status_ValidationErrors := Status_ValidationErrors restore @ [msg]\<rparr>"

definition fetchBackupInfo :: "restoreController \<Rightarrow> string \<Rightarrow> error + backup \<times> backupStore" where
  "fetchBackupInfo c backupName =
     (case rc_Get c backupName of
        Inl err \<Rightarrow> Inl err
      | Inr b \<Rightarrow>
          (case rc_GetLocation c (Backup_Spec_StorageLocation b) of
             Inl err \<Rightarrow> Inl (WithStack err)
           | Inr location \<Rightarrow>
               (case rc_newBackupStore c location of
                  Inl err \<Rightarrow> Inl err
                | Inr store \<Rightarrow> Inr (b, store))))"

text \<open>Lines 286-310: the exclusion list is completed and the four lists are validated.\<close>

definition validateLists :: "restoreController \<Rightarrow> restore \<Rightarrow> restore" where
  "validateLists c restore0 =
     (let excludedResources = set (Spec_ExcludedResources restore0);
          r1 = restore0\<lparr>Spec_ExcludedResources := Spec_ExcludedResources restore0
                 @ filter (\<lambda>n. n \<notin> excludedResources) nonRestorableResources\<rparr>;
          includedResources = set (Spec_IncludedResources r1);
          r2 = r1\<lparr>Status_ValidationErrors := Status_ValidationErrors r1
                 @ map (\<lambda>n. n @ '' are non-restorable resources'')
                     (filter (\<lambda>n. n \<in> includedResources) nonRestorableResources)\<rparr>;
          r3 = r2\<lparr>Status_ValidationErrors := Status_ValidationErrors r2
                 @ map (\<lambda>e. ''Invalid included/excluded resource lists: '' @ Error_string e)
                     (rc_ValidateIncludesExcludes c (Spec_IncludedResources r2)
                        (Spec_ExcludedResources r2))\<rparr>
      in r3\<lparr>Status_ValidationErrors := Status_ValidationErrors r3
                 @ map (\<lambda>e. ''Invalid included/excluded namespace lists: '' @ Error_string e)
                     (rc_ValidateIncludesExcludes c (Spec_IncludedNamespaces r3)
                        (Spec_ExcludedNamespaces r3))\<rparr>)"

text \<open>
  Lines 320-340, for a restore that names a schedule: \<open>Inl\<close> is the early
  \<^verbatim>\<open>return backupInfo{}\<close>, \<open>Inr\<close> goes on to fetch the backup.
\<close>

definition completeFromSchedule :: "restoreController \<Rightarrow> restore \<Rightarrow> restore + restore" where
  "completeFromSchedule c restore =
     (case rc_List c (Spec_ScheduleName restore) of
        Inl err \<Rightarrow> Inl (addValidationError ''Unable to list backups for schedule'' restore)
      | Inr backups \<Rightarrow>
          (let r1 = (if length backups = 0
                     then addValidationError ''No backups found for schedule'' restore
                     else restore)
           in case mostRecentCompletedBackup (rc_sortSlice c) backups of
                Some b \<Rightarrow> Inr (r1\<lparr>Spec_BackupName := Backup_Name b\<rparr>)
              | None \<Rightarrow> Inl (addValidationError ''No completed backups found for schedule'' r1)))"

definition noBackupInfo :: backupInfo where
  "noBackupInfo = \<lparr>info_backup = None, info_backupStore = None\<rparr>"

text \<open>A Go map lookup \<^verbatim>\<open>labels[k]\<close>: the empty string when the key is absent.\<close>

definition labelOf :: "(string \<times> string) list \<Rightarrow> string \<Rightarrow> string" where
  "labelOf labels k = (case map_of labels k of None \<Rightarrow> [] | Some v \<Rightarrow> v)"

text \<open>
  Lines 342-353. \<open>fetchBackupInfo\<close> returns the backup and its store together; they
  become the two fields of \<^verbatim>\<open>backupInfo\<close> here.
\<close>

definition fetchAndFill :: "restoreController \<Rightarrow> restore \<Rightarrow> backupInfo \<times> restore" where
  "fetchAndFill c restore =
     (case fetchBackupInfo c (Spec_BackupName restore) of
        Inl err \<Rightarrow>
          (noBackupInfo, addValidationError (''Error retrieving backup: '' @ Error_string err) restore)
      | Inr (b, store) \<Rightarrow>
          (\<lparr>info_backup = Some b, info_backupStore = Some store\<rparr>,
           if Spec_ScheduleName restore = []
           then restore\<lparr>Spec_ScheduleName := labelOf (Backup_Labels b) ScheduleNameLabel\<rparr>
           else restore))"

definition validateAndComplete :: "restoreController \<Rightarrow> restore \<Rightarrow> backupInfo \<times> restore" where
  "validateAndComplete c restore0 =
     (let restore = validateLists c restore0 in
      if \<not> backupXorScheduleProvided restore
      then (noBackupInfo,
            addValidationError
              ''Either a backup or schedule must be specified as a source for the restore, but not both''
              restore)
      else if Spec_ScheduleName restore \<noteq> []
      then (case completeFromSchedule c restore of
              Inl r \<Rightarrow> (noBackupInfo, r)
            | Inr r \<Rightarrow> fetchAndFill c r)
      else fetchAndFill c restore)"


subsection \<open>patchRestore\<close>

definition changed :: "'a \<Rightarrow> 'a \<Rightarrow> 'a option" where
  "changed old new = (if old = new then None else Some new)"

definition CreateMergePatch :: "restore \<Rightarrow> restore \<Rightarrow> restorePatch" where
  "CreateMergePatch original updated =
     \<lparr>p_BackupName = changed (Spec_BackupName original) (Spec_BackupName updated),
      p_ScheduleName = changed (Spec_ScheduleName original) (Spec_ScheduleName updated),
      p_IncludedNamespaces =
        changed (Spec_IncludedNamespaces original) (Spec_IncludedNamespaces updated),
      p_ExcludedNamespaces =
        changed (Spec_ExcludedNamespaces original) (Spec_ExcludedNamespaces updated),
      p_IncludedResources =
        changed (Spec_IncludedResources original) (Spec_IncludedResources updated),
      p_ExcludedResources =
        changed (Spec_ExcludedResources original) (Spec_ExcludedResources updated),
      p_Phase = changed (Status_Phase original) (Status_Phase updated),
      p_ValidationErrors =
        changed (Status_ValidationErrors original) (Status_ValidationErrors updated),
      p_Warnings = changed (Status_Warnings original) (Status_Warnings updated),
      p_Errors = changed (Status_Errors original) (Status_Errors updated),
      p_FailureReason = changed (Status_FailureReason original) (Status_FailureReason updated)\<rparr>"

definition merged :: "'a option \<Rightarrow> 'a \<Rightarrow> 'a" where
  "merged p old = (case p of None \<Rightarrow> old | Some new \<Rightarrow> new)"

text \<open>The API server applies a merge patch to the object it stores.\<close>

definition applyMergePatch :: "restorePatch \<Rightarrow> restore \<Rightarrow> restore" where
  "applyMergePatch p r =
     r\<lparr>Spec_BackupName := merged (p_BackupName p) (Spec_BackupName r),
       Spec_ScheduleName := merged (p_ScheduleName p) (Spec_ScheduleName r),
       Spec_IncludedNamespaces := merged (p_IncludedNamespaces p) (Spec_IncludedNamespaces r),
       Spec_ExcludedNamespaces := merged (p_ExcludedNamespaces p) (Spec_ExcludedNamespaces r),
       Spec_IncludedResources := merged (p_IncludedResources p) (Spec_IncludedResources r),
       Spec_ExcludedResources := merged (p_ExcludedResources p) (Spec_ExcludedResources r),
       Status_Phase := merged (p_Phase p) (Status_Phase r),
       Status_ValidationErrors := merged (p_ValidationErrors p) (Status_ValidationErrors r),
       Status_Warnings := merged (p_Warnings p) (Status_Warnings r),
       Status_Errors := merged (p_Errors p) (Status_Errors r),
       Status_FailureReason := merged (p_FailureReason p) (Status_FailureReason r)\<rparr>"

text \<open>
  Lines 531-553. Marshalling a restore and computing the patch cannot fail on these
  records; the call of the client can. On success the client returns the object the
  server now stores.
\<close>

definition patchRestore ::
  "restoreController \<Rightarrow> restore \<Rightarrow> restore \<Rightarrow> world \<Rightarrow> (error + restore) \<times> world" where
  "patchRestore c original updated w =
     (let patchBytes = CreateMergePatch original updated;
          w1 = called (PatchCall patchBytes) w
      in case rc_Patch c (Restore_Namespace original) (Restore_Name original) patchBytes of
           Some err \<Rightarrow> (Inl (Wrap ''error patching restore'' err), w1)
         | None \<Rightarrow>
             (let res = applyMergePatch patchBytes (stored w1)
              in (Inr res, w1\<lparr>stored := res\<rparr>)))"

subsection \<open>runValidatedRestore\<close>

definition downloadToTempFile :: "restoreController \<Rightarrow> string \<Rightarrow> backupStore \<Rightarrow> error option" where
  "downloadToTempFile c backupName store =
     (case GetBackupContents store backupName of
        Some err \<Rightarrow> Some err
      | None \<Rightarrow>
          (case rc_TempFile c backupName of
             Some err \<Rightarrow> Some (Wrap ''error creating Backup temp file'' err)
           | None \<Rightarrow>
               (case rc_Copy c backupName of
                  Some err \<Rightarrow> Some (Wrap ''error copying Backup to temp file'' err)
                | None \<Rightarrow>
                    (case rc_Seek c backupName of
                       Some err \<Rightarrow> Some (Wrap ''error resetting Backup file offset'' err)
                     | None \<Rightarrow> None))))"

definition countMessages :: "result \<Rightarrow> nat" where
  "countMessages r =
     length (Result_Velero r) + length (Result_Cluster r)
       + sum_list (map (\<lambda>kv. length (snd kv)) (Result_Namespaces r))"

definition addVelero :: "string \<Rightarrow> result \<Rightarrow> result" where
  "addVelero msg r = r\<lparr>Result_Velero := Result_Velero r @ [msg]\<rparr>"

text \<open>
  Lines 480-498. Encoding the results into a buffer cannot fail; the upload can.
\<close>

definition putResults :: "restore \<Rightarrow> result \<Rightarrow> result \<Rightarrow> backupStore \<Rightarrow> error option" where
  "putResults restore warnings errs store =
     PutRestoreResults store (Spec_BackupName restore) (Restore_Name restore) warnings errs"

text \<open>
  Lines 427-477, the part of \<^verbatim>\<open>runValidatedRestore\<close> after the deferred
  \<^verbatim>\<open>CleanupClients\<close> is registered. The result \<open>None\<close> is a panic: a method called on
  the nil backup store of an empty \<^verbatim>\<open>backupInfo\<close>. The error of \<open>putResults\<close> is
  logged and dropped, so both of its outcomes lead to the same result.
\<close>

definition runRestoreSteps ::
  "restoreController \<Rightarrow> restore \<Rightarrow> backupInfo \<Rightarrow> world \<Rightarrow> (error option \<times> restore \<times> world) option" where
  "runRestoreSteps c restore info w =
     (case rc_GetRestoreItemActions c of
        Some err \<Rightarrow> Some (Some (Wrap ''error getting restore item actions'' err), restore, w)
      | None \<Rightarrow>
     (case info_backupStore info of
        None \<Rightarrow> None
      | Some store \<Rightarrow>
     (case downloadToTempFile c (Spec_BackupName restore) store of
        Some err \<Rightarrow> Some (Some (Wrap ''error downloading backup'' err), restore, w)
      | None \<Rightarrow>
     (case GetBackupVolumeSnapshots store (Spec_BackupName restore) of
        Some err \<Rightarrow> Some (Some (Wrap ''error fetching volume snapshots metadata'' err), restore, w)
      | None \<Rightarrow>
          (let w1 = called (RestoreCall restore) w;
               (restoreWarnings, restoreErrors0) = rc_Restore c restore (info_backup info);
               (restoreErrors, w2) =
                 (case rc_logDone c restore of
                    Some err \<Rightarrow>
                      (addVelero (''error getting restore log reader: '' @ Error_string err)
                         restoreErrors0, w1)
                  | None \<Rightarrow>
                      (let w' = called (PutRestoreLogCall (Spec_BackupName restore)
                                         (Restore_Name restore)) w1
                       in case PutRestoreLog store (Spec_BackupName restore) (Restore_Name restore) of
                            Some err \<Rightarrow>
                              (addVelero (''error uploading log file to backup storage: ''
                                            @ Error_string err) restoreErrors0, w')
                          | None \<Rightarrow> (restoreErrors0, w')));
               restore' = restore\<lparr>Status_Warnings := countMessages restoreWarnings,
                                  Status_Errors := countMessages restoreErrors\<rparr>;
               w3 = called (PutRestoreResultsCall (Spec_BackupName restore)
                              (Restore_Name restore)) w2
           in case putResults restore' restoreWarnings restoreErrors store of
                Some err \<Rightarrow> Some (None, restore', w3)
              | None \<Rightarrow> Some (None, restore', w3))))))"

definition runValidatedRestore ::
  "restoreController \<Rightarrow> restore \<Rightarrow> backupInfo \<Rightarrow> world \<Rightarrow> (error option \<times> restore \<times> world) option" where
  "runValidatedRestore c restore info w =
     (case rc_newRestoreLogger c restore of
        Some err \<Rightarrow> Some (Some err, restore, w)
      | None \<Rightarrow>
          (case runRestoreSteps c restore info (called NewPluginManager w) of
             None \<Rightarrow> None
           | Some (err, restore', w') \<Rightarrow> Some (err, restore', called CleanupClients w')))"


subsection \<open>processRestore\<close>

text \<open>The string a \<^verbatim>\<open>RestorePhase\<close> prints as.\<close>

fun phaseString :: "restorePhase \<Rightarrow> string" where
  "phaseString RestorePhaseUnset = []"
| "phaseString RestorePhaseNew = ''New''"
| "phaseString RestorePhaseFailedValidation = ''FailedValidation''"
| "phaseString RestorePhaseInProgress = ''InProgress''"
| "phaseString RestorePhaseCompleted = ''Completed''"
| "phaseString RestorePhasePartiallyFailed = ''PartiallyFailed''"
| "phaseString RestorePhaseFailed = ''Failed''"

text \<open>Lines 257-270: the phase after execution, and the metric registered with it.\<close>

definition decidePhase :: "error option \<Rightarrow> restore \<Rightarrow> string \<Rightarrow> world \<Rightarrow> restore \<times> world" where
  "decidePhase rv restore backupScheduleName w =
     (case rv of
        Some err \<Rightarrow>
          (restore\<lparr>Status_Phase := RestorePhaseFailed, Status_FailureReason := Error_string err\<rparr>,
           called (RegisterRestoreFailed backupScheduleName) w)
      | None \<Rightarrow>
          if Status_Errors restore > 0
          then (restore\<lparr>Status_Phase := RestorePhasePartiallyFailed\<rparr>,
                called (RegisterRestorePartialFailure backupScheduleName) w)
          else (restore\<lparr>Status_Phase := RestorePhaseCompleted\<rparr>,
                called (RegisterRestoreSuccess backupScheduleName) w))"

text \<open>
  Lines 257-277: execution, the final phase, and the final patch, whose error is logged
  and not returned. \<open>None\<close> is a panic of \<open>runValidatedRestore\<close>.
\<close>

definition executeAndFinish ::
  "restoreController \<Rightarrow> restore \<Rightarrow> restore \<Rightarrow> backupInfo \<Rightarrow> string \<Rightarrow> world
     \<Rightarrow> (error option \<times> world) option" where
  "executeAndFinish c original restore info backupScheduleName w =
     (case runValidatedRestore c restore info w of
        None \<Rightarrow> None
      | Some (rv, restore1, w1) \<Rightarrow>
          (let (restore2, w2) = decidePhase rv restore1 backupScheduleName w1;
               (res, w3) = patchRestore c original restore2 w2
           in Some (None, w3)))"

text \<open>Lines 215-278.\<close>

definition processRestore ::
  "restoreController \<Rightarrow> restore \<Rightarrow> world \<Rightarrow> (error option \<times> world) option" where
  "processRestore c restore0 w0 =
     (let original = restore0;
          (info, restore1) = validateAndComplete c restore0;
          w1 = called CleanupClients (called NewPluginManager w0);
          backupScheduleName = Spec_ScheduleName restore1;
          w2 = called (RegisterRestoreAttempt backupScheduleName) w1;
          (restore2, w3) =
            (if length (Status_ValidationErrors restore1) > 0
             then (restore1\<lparr>Status_Phase := RestorePhaseFailedValidation\<rparr>,
                   called (RegisterRestoreValidationFailed backupScheduleName) w2)
             else (restore1\<lparr>Status_Phase := RestorePhaseInProgress\<rparr>, w2))
      in case patchRestore c original restore2 w3 of
           (Inl err, w4) \<Rightarrow>
             Some (Some (Wrap (''error updating Restore phase to ''
                               @ phaseString (Status_Phase restore2)) err), w4)
         | (Inr updatedRestore, w4) \<Rightarrow>
             if Status_Phase updatedRestore = RestorePhaseFailedValidation
             then Some (None, w4)
             else executeAndFinish c updatedRestore updatedRestore info backupScheduleName w4)"

section \<open>Item backupper (package backup)\<close>

subsection \<open>Objects\<close>

text \<open>\<^verbatim>\<open>schema.GroupResource\<close> and its \<^verbatim>\<open>String()\<close>.\<close>

record groupResource =
  gr_Group :: string
  gr_Resource :: string

definition GroupResource_String :: "groupResource \<Rightarrow> string" where
  "GroupResource_String gr =
     (if length (gr_Group gr) = 0 then gr_Resource gr else gr_Resource gr @ ''.'' @ gr_Group gr)"

text \<open>
  The group-resources of package \<^verbatim>\<open>kuberesource\<close> that the item backupper compares with.
  The package is not among the sources; these are the core-group resources of those
  names, and what is proved uses only that they differ from one another.
\<close>

definition Namespaces :: groupResource where
  "Namespaces = \<lparr>gr_Group = [], gr_Resource = ''namespaces''\<rparr>"

definition Pods :: groupResource where
  "Pods = \<lparr>gr_Group = [], gr_Resource = ''pods''\<rparr>"

definition PersistentVolumes :: groupResource where
  "PersistentVolumes = \<lparr>gr_Group = [], gr_Resource = ''persistentvolumes''\<rparr>"

text \<open>What \<^verbatim>\<open>meta.Accessor\<close> gives access to.\<close>

record objectMeta =
  meta_Namespace :: string
  meta_Name :: string
  meta_DeletionTimestamp :: "int option"
  meta_Labels :: "(string \<times> string) list"

text \<open>
  A \<^verbatim>\<open>runtime.Unstructured\<close> value, as the views the item backupper takes of it: the
  result of \<^verbatim>\<open>meta.Accessor\<close> (an error for a value that is no object, such as a nil
  interface or a list), the group-version and kind of \<^verbatim>\<open>GetObjectKind()\<close>, and the
  content, which the converters and \<^verbatim>\<open>json.Marshal\<close> read.
\<close>

record unstructured =
  obj_Accessor :: "error + objectMeta"
  obj_GroupVersion :: string
  obj_Kind :: string
  obj_Content :: string

text \<open>Lines 1362-1364.\<close>

definition resourceKey :: "unstructured \<Rightarrow> string" where
  "resourceKey obj = obj_GroupVersion obj @ ''/'' @ obj_Kind obj"

record itemKey =
  key_resource :: string
  key_namespace :: string
  key_name :: string

text \<open>
  A pod, as far as the file-level backup needs it: each volume has a name and, when it
  is backed by a claim, the claim's name.
\<close>

record pod =
  pod_Namespace :: string
  pod_Name :: string
  pod_Volumes :: "(string \<times> string option) list"

record persistentVolume =
  pv_Name :: string
  pv_ClaimRef :: "(string \<times> string) option"
  pv_Labels :: "(string \<times> string) list"

record volumeSnapshotLocation =
  vsl_Name :: string
  vsl_Provider :: string
  vsl_Config :: "(string \<times> string) list"

datatype snapshotPhase = SnapshotPhaseNew | SnapshotPhaseCompleted | SnapshotPhaseFailed

text \<open>\<^verbatim>\<open>volume.Snapshot\<close>, \<^verbatim>\<open>Spec\<close> and \<^verbatim>\<open>Status\<close> written flat.\<close>

record snapshot =
  snap_BackupName :: string
  snap_BackupUID :: string
  snap_Location :: string
  snap_PersistentVolumeName :: string
  snap_ProviderVolumeID :: string
  snap_VolumeType :: string
  snap_VolumeAZ :: string
  snap_VolumeIOPS :: "int option"
  snap_Phase :: snapshotPhase
  snap_ProviderSnapshotID :: string

type_synonym podVolumeBackup = string

record resourceIdentifier =
  ri_GroupResource :: groupResource
  ri_Namespace :: string
  ri_Name :: string

text \<open>\<^verbatim>\<open>tar.Header\<close>, the fields that are set; the mode 0755 is the number 493.\<close>

record tarHeader =
  hdr_Name :: string
  hdr_Size :: nat
  hdr_Typeflag :: char
  hdr_Mode :: nat
  hdr_ModTime :: int

subsection \<open>Collaborators\<close>

text \<open>\<^verbatim>\<open>velero.VolumeSnapshotter\<close>: the plugin interface, one function for each method.\<close>

record volumeSnapshotter =
  vs_Init :: "(string \<times> string) list \<Rightarrow> error option"
  vs_GetVolumeID :: "unstructured \<Rightarrow> error + string"
  vs_GetVolumeInfo :: "string \<Rightarrow> string \<Rightarrow> error + string \<times> int option"
  vs_CreateSnapshot :: "string \<Rightarrow> string \<Rightarrow> (string \<times> string) list \<Rightarrow> error + string"

text \<open>\<^verbatim>\<open>collections.IncludesExcludes\<close>, by the two questions asked of it.\<close>

record includesExcludes =
  ie_ShouldInclude :: "string \<Rightarrow> bool"
  ie_IncludeEverything :: bool

text \<open>
  A resolved action: its matchers and \<^verbatim>\<open>Execute\<close>, which returns an error or the updated
  item with the additional items.
\<close>

record resolvedAction =
  ra_resourceIncludesExcludes :: includesExcludes
  ra_namespaceIncludesExcludes :: includesExcludes
  ra_selector :: "(string \<times> string) list \<Rightarrow> bool"
  ra_Execute :: "unstructured \<Rightarrow> error + unstructured \<times> resourceIdentifier list"

datatype hookPhase = hookPhasePre | hookPhasePost

text \<open>
  Everything the item backupper calls and does not define: the hook handler, the
  converters of \<^verbatim>\<open>runtime.DefaultUnstructuredConverter\<close>, \<^verbatim>\<open>restic.GetVolumesToBackup\<close>,
  the discovery helper, the dynamic client, the restic backupper (which may be nil), the
  snapshotter getter, the tar writer, \<^verbatim>\<open>json.Marshal\<close>, \<^verbatim>\<open>filepath.Join\<close> and the clock.
  Each is a function of its arguments.
\<close>

record collaborators =
  co_handleHooks :: "groupResource \<Rightarrow> unstructured \<Rightarrow> hookPhase \<Rightarrow> error option"
  co_toPod :: "string \<Rightarrow> error + pod"
  co_toPV :: "string \<Rightarrow> error + persistentVolume"
  co_GetVolumesToBackup :: "pod \<Rightarrow> string list"
  co_ResourceFor :: "groupResource \<Rightarrow> error + groupResource"
  co_ClientFor :: "groupResource \<Rightarrow> string \<Rightarrow> error option"
  co_Get :: "groupResource \<Rightarrow> string \<Rightarrow> string \<Rightarrow> error + unstructured"
  co_resticBackupper :: "(pod \<Rightarrow> podVolumeBackup list \<times> error list) option"
  co_GetVolumeSnapshotter :: "string \<Rightarrow> error + volumeSnapshotter"
  co_WriteHeader :: "tarHeader \<Rightarrow> error option"
  co_Write :: "string \<Rightarrow> error option"
  co_Marshal :: "string \<Rightarrow> error + string"
  co_Join :: "string list \<Rightarrow> string"
  co_Now :: int

text \<open>
  The calls made on the collaborators, in order. A call of a snapshotter carries the
  name of the snapshot location it is made for; a \<open>WriteHeaderCall\<close> carries, beside the
  header, the key of the item that \<open>backupItem\<close> is writing.
\<close>

datatype event =
    HandleHooksCall hookPhase groupResource unstructured
  | ExecuteCall unstructured
  | GetCall groupResource string string
  | BackupPodVolumesCall pod
  | GetVolumeSnapshotterCall string string
  | InitCall string
  | GetVolumeIDCall string
  | GetVolumeInfoCall string string string
  | CreateSnapshotCall string string string "(string \<times> string) list"
  | WriteHeaderCall itemKey tarHeader
  | WriteCall string

subsection \<open>The backup request and the item backupper\<close>

text \<open>\<^verbatim>\<open>backup.Request\<close>: the fields of the backup and of the request that are used here.\<close>

record request =
  req_Name :: string
  req_UID :: string
  req_IncludeClusterResources :: "bool option"
  req_SnapshotVolumes :: "bool option"
  NamespaceIncludesExcludes :: includesExcludes
  ResourceIncludesExcludes :: includesExcludes
  ResolvedActions :: "resolvedAction list"
  SnapshotLocations :: "volumeSnapshotLocation list"
  VolumeSnapshots :: "snapshot list"
  PodVolumeBackups :: "podVolumeBackup list"
  BackedUpItems :: "itemKey set"

text \<open>
  Modelled from the spec: \<^verbatim>\<open>pvcSnapshotTracker\<close> is not among the sources; the spec
  describes it as "a per-run set of (namespace, PVC-name) pairs already claimed for
  file-level volume backup".
\<close>

type_synonym pvcSnapshotTracker = "(string \<times> string) set"

text \<open>
  The state of a \<^verbatim>\<open>defaultItemBackupper\<close>: the request, the tracker, the snapshotters
  cached by location name, and the calls made on the collaborators so far.
\<close>

record itemBackupper =
  backupRequest :: request
  resticSnapshotTracker :: pvcSnapshotTracker
  snapshotLocationVolumeSnapshotters :: "string \<rightharpoonup> volumeSnapshotter"
  made :: "event list"

definition logged :: "event \<Rightarrow> itemBackupper \<Rightarrow> itemBackupper" where
  "logged e ib = ib\<lparr>made := made ib @ [e]\<rparr>"

text \<open>
  Modelled from the spec: \<^verbatim>\<open>pvcSnapshotTracker.Track\<close> registers, for the namespace of the
  pod, the claim of every listed volume that is backed by a claim; \<^verbatim>\<open>Has\<close> is membership.
\<close>

definition claimsOf :: "pod \<Rightarrow> string list \<Rightarrow> (string \<times> string) list" where
  "claimsOf p volumeNames =
     concat (map (\<lambda>volumeName.
        case find (\<lambda>v. fst v = volumeName) (pod_Volumes p) of
          Some (n, Some claimName) \<Rightarrow> [(pod_Namespace p, claimName)]
        | _ \<Rightarrow> []) volumeNames)"

definition Track :: "pod \<Rightarrow> string list \<Rightarrow> itemBackupper \<Rightarrow> itemBackupper" where
  "Track p volumeNames ib =
     ib\<lparr>resticSnapshotTracker := resticSnapshotTracker ib \<union> set (claimsOf p volumeNames)\<rparr>"

definition Has :: "itemBackupper \<Rightarrow> string \<Rightarrow> string \<Rightarrow> bool" where
  "Has ib ns n = ((ns, n) \<in> resticSnapshotTracker ib)"

subsection \<open>volumeSnapshotter and takePVSnapshot\<close>

text \<open>Lines 1219-1239: the snapshotter of a location, from the cache or made and cached.\<close>

definition volumeSnapshotter ::
  "collaborators \<Rightarrow> volumeSnapshotLocation \<Rightarrow> itemBackupper
     \<Rightarrow> (error + volumeSnapshotter) \<times> itemBackupper" where
  "volumeSnapshotter env snapshotLocation ib =
     (case snapshotLocationVolumeSnapshotters ib (vsl_Name snapshotLocation) of
        Some bs \<Rightarrow> (Inr bs, ib)
      | None \<Rightarrow>
          (let ib1 = logged (GetVolumeSnapshotterCall (vsl_Name snapshotLocation)
                               (vsl_Provider snapshotLocation)) ib
           in case co_GetVolumeSnapshotter env (vsl_Provider snapshotLocation) of
                Inl err \<Rightarrow> (Inl err, ib1)
              | Inr bs \<Rightarrow>
                  (let ib2 = logged (InitCall (vsl_Name snapshotLocation)) ib1
                   in case vs_Init bs (vsl_Config snapshotLocation) of
                        Some err \<Rightarrow> (Inl err, ib2)
                      | None \<Rightarrow>
                          (Inr bs,
                           ib2\<lparr>snapshotLocationVolumeSnapshotters :=
                                 (snapshotLocationVolumeSnapshotters ib2)
                                   (vsl_Name snapshotLocation \<mapsto> bs)\<rparr>))))"

definition zoneLabel :: string where
  "zoneLabel = ''failure-domain.beta.kubernetes.io/zone''"

text \<open>Lines 1342-1358.\<close>

definition volumeSnapshot ::
  "request \<Rightarrow> string \<Rightarrow> string \<Rightarrow> string \<Rightarrow> string \<Rightarrow> string \<Rightarrow> int option \<Rightarrow> snapshot" where
  "volumeSnapshot backup volumeName volumeID volumeType az location iops =
     \<lparr>snap_BackupName = req_Name backup,
      snap_BackupUID = req_UID backup,
      snap_Location = location,
      snap_PersistentVolumeName = volumeName,
      snap_ProviderVolumeID = volumeID,
      snap_VolumeType = volumeType,
      snap_VolumeAZ = az,
      snap_VolumeIOPS = iops,
      snap_Phase = SnapshotPhaseNew,
      snap_ProviderSnapshotID = []\<rparr>"

text \<open>
  The loop of lines 1282-1304 over the snapshot locations: a location is passed over
  when its snapshotter cannot be had, when \<^verbatim>\<open>GetVolumeID\<close> fails and when the volume ID
  is empty; the first other location ends the loop. The result is the volume ID, the
  location's name and the snapshotter, or \<open>None\<close> when the loop runs to its end.
\<close>

fun findVolumeSnapshotter ::
  "collaborators \<Rightarrow> unstructured \<Rightarrow> volumeSnapshotLocation list \<Rightarrow> itemBackupper
     \<Rightarrow> (string \<times> string \<times> volumeSnapshotter) option \<times> itemBackupper" where
  "findVolumeSnapshotter env obj [] ib = (None, ib)"
| "findVolumeSnapshotter env obj (snapshotLocation # rest) ib =
     (case volumeSnapshotter env snapshotLocation ib of
        (Inl err, ib1) \<Rightarrow> findVolumeSnapshotter env obj rest ib1
      | (Inr bs, ib1) \<Rightarrow>
          (let ib2 = logged (GetVolumeIDCall (vsl_Name snapshotLocation)) ib1
           in case vs_GetVolumeID bs obj of
                Inl err \<Rightarrow> findVolumeSnapshotter env obj rest ib2
              | Inr volumeID \<Rightarrow>
                  if volumeID = [] then findVolumeSnapshotter env obj rest ib2
                  else (Some (volumeID, vsl_Name snapshotLocation, bs), ib2)))"

text \<open>
  Lines 1311-1339, for the location the loop selected: the tags, the volume info, the
  record, the snapshot and the append to the request's list.
\<close>

definition snapshotAt ::
  "persistentVolume \<Rightarrow> string \<Rightarrow> string \<Rightarrow> string \<Rightarrow> volumeSnapshotter \<Rightarrow> itemBackupper
     \<Rightarrow> error option \<times> itemBackupper" where
  "snapshotAt pv pvFailureDomainZone volumeID location bs ib =
     (let tags = [(''velero.io/backup'', req_Name (backupRequest ib)),
                  (''velero.io/pv'', pv_Name pv)];
          ib1 = logged (GetVolumeInfoCall location volumeID pvFailureDomainZone) ib
      in case vs_GetVolumeInfo bs volumeID pvFailureDomainZone of
           Inl err \<Rightarrow> (Some (Wrap ''error getting volume info'' err), ib1)
         | Inr (volumeType, iops) \<Rightarrow>
             (let snap = volumeSnapshot (backupRequest ib1) (pv_Name pv) volumeID volumeType
                           pvFailureDomainZone location iops;
                  ib2 = logged (CreateSnapshotCall location (snap_ProviderVolumeID snap)
                                  (snap_VolumeAZ snap) tags) ib1;
                  (errs, snap') =
                    (case vs_CreateSnapshot bs (snap_ProviderVolumeID snap) (snap_VolumeAZ snap) tags of
                       Inl err \<Rightarrow>
                         ([Wrap ''error taking snapshot of volume'' err],
                          snap\<lparr>snap_Phase := SnapshotPhaseFailed\<rparr>)
                     | Inr snapshotID \<Rightarrow>
                         ([], snap\<lparr>snap_Phase := SnapshotPhaseCompleted,
                                   snap_ProviderSnapshotID := snapshotID\<rparr>))
              in (NewAggregate errs,
                  ib2\<lparr>backupRequest := (backupRequest ib2)
                        \<lparr>VolumeSnapshots := VolumeSnapshots (backupRequest ib2) @ [snap']\<rparr>\<rparr>)))"

text \<open>Lines 1248-1340.\<close>

definition takePVSnapshot ::
  "collaborators \<Rightarrow> unstructured \<Rightarrow> itemBackupper \<Rightarrow> error option \<times> itemBackupper" where
  "takePVSnapshot env obj ib =
     (if req_SnapshotVolumes (backupRequest ib) = Some False then (None, ib)
      else case co_toPV env (obj_Content obj) of
             Inl err \<Rightarrow> (Some (WithStack err), ib)
           | Inr pv \<Rightarrow>
               if (case pv_ClaimRef pv of
                     Some (ns, n) \<Rightarrow> Has ib ns n
                   | None \<Rightarrow> False)
               then (None, ib)
               else (let pvFailureDomainZone = labelOf (pv_Labels pv) zoneLabel
                     in case findVolumeSnapshotter env obj
                               (SnapshotLocations (backupRequest ib)) ib of
                          (None, ib1) \<Rightarrow> (None, ib1)
                        | (Some (volumeID, location, bs), ib1) \<Rightarrow>
                            snapshotAt pv pvFailureDomainZone volumeID location bs ib1))"

subsection \<open>backupPodVolumes and executeActions\<close>

text \<open>Lines 1143-1154; \<^verbatim>\<open>nil, nil\<close> is the pair of empty lists.\<close>

definition backupPodVolumes ::
  "collaborators \<Rightarrow> pod \<Rightarrow> string list \<Rightarrow> itemBackupper
     \<Rightarrow> (podVolumeBackup list \<times> error list) \<times> itemBackupper" where
  "backupPodVolumes env p volumes ib =
     (if length volumes = 0 then (([], []), ib)
      else case co_resticBackupper env of
             None \<Rightarrow> (([], []), ib)
           | Some BackupPodVolumes \<Rightarrow> (BackupPodVolumes p, logged (BackupPodVolumesCall p) ib))"

text \<open>
  The item backupper calls itself for additional items through its field
  \<^verbatim>\<open>additionalItemBackupper\<close> (line 1208). The field is a parameter of the functions below;
  \<open>None\<close> from it means that the nested call does not return.
\<close>

type_synonym additionalItemBackupper =
  "itemBackupper \<Rightarrow> unstructured \<Rightarrow> groupResource \<Rightarrow> (error option \<times> itemBackupper) option"

text \<open>The inner loop of lines 1192-1211 over the additional items of one action.\<close>

fun backupAdditionalItems ::
  "additionalItemBackupper \<Rightarrow> collaborators \<Rightarrow> resourceIdentifier list \<Rightarrow> itemBackupper
     \<Rightarrow> (error option \<times> itemBackupper) option" where
  "backupAdditionalItems aib env [] ib = Some (None, ib)"
| "backupAdditionalItems aib env (additionalItem # rest) ib =
     (case co_ResourceFor env (ri_GroupResource additionalItem) of
        Inl err \<Rightarrow> Some (Some err, ib)
      | Inr gvr \<Rightarrow>
          (case co_ClientFor env gvr (ri_Namespace additionalItem) of
             Some err \<Rightarrow> Some (Some err, ib)
           | None \<Rightarrow>
               (let ib1 = logged (GetCall gvr (ri_Namespace additionalItem)
                                    (ri_Name additionalItem)) ib
                in case co_Get env gvr (ri_Namespace additionalItem) (ri_Name additionalItem) of
                     Inl err \<Rightarrow> Some (Some (WithStack err), ib1)
                   | Inr item \<Rightarrow>
                       (case aib ib1 item gvr of
                          None \<Rightarrow> None
                        | Some (Some err, ib2) \<Rightarrow> Some (Some err, ib2)
                        | Some (None, ib2) \<Rightarrow> backupAdditionalItems aib env rest ib2))))"

text \<open>
  Lines 1156-1215, the loop over the resolved actions. The name, the namespace and the
  metadata are those of the item as it was handed to \<open>backupItem\<close>.
\<close>

fun executeActions ::
  "additionalItemBackupper \<Rightarrow> collaborators \<Rightarrow> unstructured \<Rightarrow> groupResource \<Rightarrow> string
     \<Rightarrow> string \<Rightarrow> objectMeta \<Rightarrow> resolvedAction list \<Rightarrow> itemBackupper
     \<Rightarrow> ((error + unstructured) \<times> itemBackupper) option" where
  "executeActions aib env obj groupResource name namespace metadata [] ib = Some (Inr obj, ib)"
| "executeActions aib env obj groupResource name namespace metadata (action # rest) ib =
     (if \<not> ie_ShouldInclude (ra_resourceIncludesExcludes action)
             (GroupResource_String groupResource)
      then executeActions aib env obj groupResource name namespace metadata rest ib
      else if namespace \<noteq> [] \<and> \<not> ie_ShouldInclude (ra_namespaceIncludesExcludes action) namespace
      then executeActions aib env obj groupResource name namespace metadata rest ib
      else if namespace = [] \<and> \<not> ie_IncludeEverything (ra_namespaceIncludesExcludes action)
      then executeActions aib env obj groupResource name namespace metadata rest ib
      else if \<not> ra_selector action (meta_Labels metadata)
      then executeActions aib env obj groupResource name namespace metadata rest ib
      else (let ib1 = logged (ExecuteCall obj) ib
            in case ra_Execute action obj of
                 Inl err \<Rightarrow>
                   Some (Inl (Wrap (''error executing custom action (groupResource=''
                                    @ GroupResource_String groupResource @ '', namespace=''
                                    @ namespace @ '', name='' @ name @ '')'') err), ib1)
               | Inr (updatedItem, additionalItemIdentifiers) \<Rightarrow>
                   (case backupAdditionalItems aib env additionalItemIdentifiers ib1 of
                      None \<Rightarrow> None
                    | Some (Some err, ib2) \<Rightarrow> Some (Inl err, ib2)
                    | Some (None, ib2) \<Rightarrow>
                        executeActions aib env updatedItem groupResource name namespace
                          metadata rest ib2)))"

subsection \<open>backupItem\<close>

text \<open>Lines 1050-1065: for a pod, its volumes for the file-level backup are tracked.\<close>

definition trackPodVolumes ::
  "collaborators \<Rightarrow> unstructured \<Rightarrow> groupResource \<Rightarrow> itemBackupper
     \<Rightarrow> (error list \<times> pod option \<times> string list) \<times> itemBackupper" where
  "trackPodVolumes env obj groupResource ib =
     (if groupResource = Pods
      then (case co_toPod env (obj_Content obj) of
              Inl err \<Rightarrow> (([WithStack err], None, []), ib)
            | Inr p \<Rightarrow>
                (let resticVolumesToBackup = co_GetVolumesToBackup env p
                 in (([], Some p, resticVolumesToBackup), Track p resticVolumesToBackup ib)))
      else (([], None, []), ib))"

text \<open>
  Modelled from the spec: the directory names of the archive are constants of the API
  package, which is not among the sources; section 6 of the spec gives the layout
  \<^verbatim>\<open>resources/.../namespaces/<namespace>/<name>.json\<close> and
  \<^verbatim>\<open>resources/.../cluster/<name>.json\<close>. Nothing below depends on their values.
\<close>

definition ResourcesDir :: string where "ResourcesDir = ''resources''"
definition NamespaceScopedDir :: string where "NamespaceScopedDir = ''namespaces''"
definition ClusterScopedDir :: string where "ClusterScopedDir = ''cluster''"

text \<open>Lines 1110-1138: the path, the JSON, the header and the two writes.\<close>

definition archiveItem ::
  "collaborators \<Rightarrow> itemKey \<Rightarrow> unstructured \<Rightarrow> groupResource \<Rightarrow> string \<Rightarrow> string
     \<Rightarrow> itemBackupper \<Rightarrow> error option \<times> itemBackupper" where
  "archiveItem env key obj groupResource name namespace ib =
     (let filePath =
            (if namespace \<noteq> []
             then co_Join env [ResourcesDir, GroupResource_String groupResource,
                               NamespaceScopedDir, namespace, name @ ''.json'']
             else co_Join env [ResourcesDir, GroupResource_String groupResource,
                               ClusterScopedDir, name @ ''.json''])
      in case co_Marshal env (obj_Content obj) of
           Inl err \<Rightarrow> (Some (WithStack err), ib)
         | Inr itemBytes \<Rightarrow>
             (let hdr = \<lparr>hdr_Name = filePath, hdr_Size = length itemBytes,
                         hdr_Typeflag = CHR ''0'', hdr_Mode = 493, hdr_ModTime = co_Now env\<rparr>;
                  ib1 = logged (WriteHeaderCall key hdr) ib
              in case co_WriteHeader env hdr of
                   Some err \<Rightarrow> (Some (WithStack err), ib1)
                 | None \<Rightarrow>
                     (let ib2 = logged (WriteCall itemBytes) ib1
                      in case co_Write env itemBytes of
                           Some err \<Rightarrow> (Some (WithStack err), ib2)
                         | None \<Rightarrow> (None, ib2))))"

text \<open>
  Lines 1079-1139, after the actions have run without error: \<open>obj\<close> is the item as the
  actions left it, \<open>key\<close> the key recorded at line 1035.
\<close>

definition afterActions ::
  "collaborators \<Rightarrow> itemKey \<Rightarrow> unstructured \<Rightarrow> groupResource \<Rightarrow> error list \<Rightarrow> pod option
     \<Rightarrow> string list \<Rightarrow> itemBackupper \<Rightarrow> error option \<times> itemBackupper" where
  "afterActions env key obj groupResource backupErrs0 podOpt resticVolumesToBackup ib =
     (case obj_Accessor obj of
        Inl err \<Rightarrow> (Some (WithStack err), ib)
      | Inr metadata \<Rightarrow>
          (let name = meta_Name metadata;
               namespace = meta_Namespace metadata;
               (backupErrs1, ib1) =
                 (if groupResource = PersistentVolumes
                  then (case takePVSnapshot env obj ib of
                          (Some err, ib') \<Rightarrow> (backupErrs0 @ [err], ib')
                        | (None, ib') \<Rightarrow> (backupErrs0, ib'))
                  else (backupErrs0, ib));
               (backupErrs2, ib2) =
                 (case podOpt of
                    Some p \<Rightarrow>
                      if groupResource = Pods
                      then (case backupPodVolumes env p resticVolumesToBackup ib1 of
                              ((podVolumeBackups, errs), ib') \<Rightarrow>
                                (backupErrs1 @ errs,
                                 ib'\<lparr>backupRequest := (backupRequest ib')
                                       \<lparr>PodVolumeBackups := podVolumeBackups\<rparr>\<rparr>))
                      else (backupErrs1, ib1)
                  | None \<Rightarrow> (backupErrs1, ib1));
               ib3 = logged (HandleHooksCall hookPhasePost groupResource obj) ib2;
               backupErrs3 =
                 (case co_handleHooks env groupResource obj hookPhasePost of
                    Some err \<Rightarrow> backupErrs2 @ [err]
                  | None \<Rightarrow> backupErrs2)
           in if length backupErrs3 \<noteq> 0 then (NewAggregate backupErrs3, ib3)
              else archiveItem env key obj groupResource name namespace ib3))"

text \<open>
  Lines 1037-1139, for an item whose key has just been recorded: the pre hooks, the
  tracking of pod volumes, the actions, and then either the post hooks alone (an action
  failed) or the rest of the function.
\<close>

definition processItem ::
  "additionalItemBackupper \<Rightarrow> collaborators \<Rightarrow> itemKey \<Rightarrow> unstructured \<Rightarrow> groupResource
     \<Rightarrow> objectMeta \<Rightarrow> itemBackupper \<Rightarrow> (error option \<times> itemBackupper) option" where
  "processItem aib env key obj groupResource metadata ib =
     (let ib1 = logged (HandleHooksCall hookPhasePre groupResource obj) ib
      in case co_handleHooks env groupResource obj hookPhasePre of
           Some err \<Rightarrow> Some (Some err, ib1)
         | None \<Rightarrow>
             (case trackPodVolumes env obj groupResource ib1 of
                ((backupErrs, podOpt, resticVolumesToBackup), ib2) \<Rightarrow>
                  (case executeActions aib env obj groupResource (meta_Name metadata)
                          (meta_Namespace metadata) metadata
                          (ResolvedActions (backupRequest ib2)) ib2 of
                     None \<Rightarrow> None
                   | Some (Inl err, ib3) \<Rightarrow>
                       (let backupErrs1 = backupErrs @ [err];
                            ib4 = logged (HandleHooksCall hookPhasePost groupResource obj) ib3;
                            backupErrs2 =
                              (case co_handleHooks env groupResource obj hookPhasePost of
                                 Some e \<Rightarrow> backupErrs1 @ [e]
                               | None \<Rightarrow> backupErrs1)
                        in Some (NewAggregate backupErrs2, ib4))
                   | Some (Inr updatedObj, ib3) \<Rightarrow>
                       Some (afterActions env key updatedObj groupResource backupErrs podOpt
                               resticVolumesToBackup ib3))))"

text \<open>Lines 1025-1029: the key of an item, from the metadata read at lines 993-994.\<close>

definition keyOf :: "unstructured \<Rightarrow> objectMeta \<Rightarrow> itemKey" where
  "keyOf obj metadata =
     \<lparr>key_resource = resourceKey obj, key_namespace = meta_Namespace metadata,
      key_name = meta_Name metadata\<rparr>"

text \<open>Lines 1003-1023: the four reasons to leave an item out.\<close>

definition excluded :: "itemBackupper \<Rightarrow> objectMeta \<Rightarrow> groupResource \<Rightarrow> bool" where
  "excluded ib metadata groupResource =
     (let namespace = meta_Namespace metadata
      in if namespace \<noteq> []
            \<and> \<not> ie_ShouldInclude (NamespaceIncludesExcludes (backupRequest ib)) namespace
         then True
         else if namespace = [] \<and> groupResource \<noteq> Namespaces
                 \<and> req_IncludeClusterResources (backupRequest ib) = Some False
         then True
         else if \<not> ie_ShouldInclude (ResourceIncludesExcludes (backupRequest ib))
                     (GroupResource_String groupResource)
         then True
         else if meta_DeletionTimestamp metadata \<noteq> None
         then True
         else False)"

text \<open>Lines 987-1139, with the additional-item backupper as a parameter.\<close>

definition backupItemWith ::
  "additionalItemBackupper \<Rightarrow> collaborators \<Rightarrow> itemBackupper \<Rightarrow> unstructured
     \<Rightarrow> groupResource \<Rightarrow> (error option \<times> itemBackupper) option" where
  "backupItemWith aib env ib obj groupResource =
     (case obj_Accessor obj of
        Inl err \<Rightarrow> Some (Some err, ib)
      | Inr metadata \<Rightarrow>
          if excluded ib metadata groupResource then Some (None, ib)
          else (let key = keyOf obj metadata
                in if key \<in> BackedUpItems (backupRequest ib) then Some (None, ib)
                   else processItem aib env key obj groupResource metadata
                          (ib\<lparr>backupRequest := (backupRequest ib)
                               \<lparr>BackedUpItems := insert key (BackedUpItems (backupRequest ib))\<rparr>\<rparr>)))"

text \<open>
  \<^verbatim>\<open>newItemBackupper\<close> sets \<^verbatim>\<open>ib.additionalItemBackupper = ib\<close> (line 962): the item
  backupper is its own additional-item backupper. The first argument bounds how deep
  the calls for additional items may nest; \<open>None\<close> says that the bound did not suffice.
\<close>

fun backupItem ::
  "nat \<Rightarrow> collaborators \<Rightarrow> itemBackupper \<Rightarrow> unstructured \<Rightarrow> groupResource
     \<Rightarrow> (error option \<times> itemBackupper) option" where
  "backupItem 0 env ib obj groupResource =
     backupItemWith (\<lambda>ib' obj' gr'. None) env ib obj groupResource"
| "backupItem (Suc n) env ib obj groupResource =
     backupItemWith (backupItem n env) env ib obj groupResource"

text \<open>The keys of the items for which a tar header has been handed to the tar writer.\<close>

fun writtenKeys :: "event list \<Rightarrow> itemKey list" where
  "writtenKeys [] = []"
| "writtenKeys (WriteHeaderCall k h # es) = k # writtenKeys es"
| "writtenKeys (e # es) = writtenKeys es"

subsection \<open>Relations between two states of a run\<close>

text \<open>
  \<open>sameItems\<close>: the set of backed-up keys and the keys of the headers written are the
  same in both states.
\<close>

definition sameItems :: "itemBackupper \<Rightarrow> itemBackupper \<Rightarrow> bool" where
  "sameItems ib ib' =
     (BackedUpItems (backupRequest ib') = BackedUpItems (backupRequest ib)
      \<and> writtenKeys (made ib') = writtenKeys (made ib))"

text \<open>
  \<open>grows\<close>: from the first state to the second no key has left \<^verbatim>\<open>BackedUpItems\<close>, and
  the headers written in between are for different keys, each of them recorded in
  between.
\<close>

definition grows :: "itemBackupper \<Rightarrow> itemBackupper \<Rightarrow> bool" where
  "grows ib ib' =
     (BackedUpItems (backupRequest ib) \<subseteq> BackedUpItems (backupRequest ib')
      \<and> (\<exists>ws. writtenKeys (made ib') = writtenKeys (made ib) @ ws
              \<and> distinct ws
              \<and> set ws \<subseteq> BackedUpItems (backupRequest ib') - BackedUpItems (backupRequest ib)))"

text \<open>An additional-item backupper under which the state grows whenever it returns.\<close>

definition growing :: "additionalItemBackupper \<Rightarrow> bool" where
  "growing aib = (\<forall>ib obj gr e ib'. aib ib obj gr = Some (e, ib') \<longrightarrow> grows ib ib')"

text \<open>
  The second additional-item backupper returns whatever the first returns, and maybe
  in more cases.
\<close>

definition extends :: "additionalItemBackupper \<Rightarrow> additionalItemBackupper \<Rightarrow> bool" where
  "extends a b = (\<forall>ib obj gr r. a ib obj gr = Some r \<longrightarrow> b ib obj gr = Some r)"

subsection \<open>Reading the list of calls\<close>

text \<open>The snapshot location a call of a snapshotter is made for.\<close>

fun snapshotterCallAt :: "event \<Rightarrow> string option" where
  "snapshotterCallAt (GetVolumeSnapshotterCall l p) = Some l"
| "snapshotterCallAt (InitCall l) = Some l"
| "snapshotterCallAt (GetVolumeIDCall l) = Some l"
| "snapshotterCallAt (GetVolumeInfoCall l v z) = Some l"
| "snapshotterCallAt (CreateSnapshotCall l v z t) = Some l"
| "snapshotterCallAt e = None"

text \<open>Calls that ask a snapshotter for volume info or for a snapshot.\<close>

fun asksInfoOrSnapshot :: "event \<Rightarrow> bool" where
  "asksInfoOrSnapshot (GetVolumeInfoCall l v z) = True"
| "asksInfoOrSnapshot (CreateSnapshotCall l v z t) = True"
| "asksInfoOrSnapshot e = False"




subsection \<open>Locations that yield no volume ID\<close>

text \<open>
  A snapshot location yields no volume ID for an object, given the snapshotters the item
  backupper holds by location name: the location's snapshotter is the one held under
  its name or, when none is held, the one that \<^verbatim>\<open>GetVolumeSnapshotter\<close> returns for the
  location's provider and that \<^verbatim>\<open>Init\<close> accepts; there is no such snapshotter, or its
  \<^verbatim>\<open>GetVolumeID\<close> fails, or it returns the empty volume ID.
\<close>

definition yieldsNoVolumeID ::
  "collaborators \<Rightarrow> unstructured \<Rightarrow> (string \<rightharpoonup> volumeSnapshotter) \<Rightarrow> volumeSnapshotLocation
     \<Rightarrow> bool" where
  "yieldsNoVolumeID env obj held l =
     (case (case held (vsl_Name l) of
              Some bs \<Rightarrow> Inr bs
            | None \<Rightarrow>
                (case co_GetVolumeSnapshotter env (vsl_Provider l) of
                   Inl err \<Rightarrow> Inl err
                 | Inr bs \<Rightarrow>
                     (case vs_Init bs (vsl_Config l) of
                        Some err \<Rightarrow> Inl err
                      | None \<Rightarrow> Inr bs))) of
        Inl err \<Rightarrow> True
      | Inr bs \<Rightarrow>
          (case vs_GetVolumeID bs obj of
             Inl err \<Rightarrow> True
           | Inr volumeID \<Rightarrow> volumeID = []))"

subsection \<open>What a run does for one persistent volume\<close>

text \<open>The snapshot records of the request that are for the persistent volume of a name.\<close>

definition snapshotsOf :: "string \<Rightarrow> itemBackupper \<Rightarrow> snapshot list" where
  "snapshotsOf volumeName ib =
     filter (\<lambda>s. snap_PersistentVolumeName s = volumeName) (VolumeSnapshots (backupRequest ib))"

text \<open>
  The calls of \<^verbatim>\<open>CreateSnapshot\<close> for the persistent volume of a name: \<open>takePVSnapshot\<close>
  tags every snapshot with the name of its volume (line 1311).
\<close>

fun createsSnapshotOf :: "string \<Rightarrow> event \<Rightarrow> bool" where
  "createsSnapshotOf volumeName (CreateSnapshotCall l v z tags) =
     ((''velero.io/pv'', volumeName) \<in> set tags)"
| "createsSnapshotOf volumeName e = False"

text \<open>
  Every object that converts to the persistent volume of the name is bound to the
  claim.
\<close>

definition boundTo :: "collaborators \<Rightarrow> string \<Rightarrow> string \<times> string \<Rightarrow> bool" where
  "boundTo env volumeName claim =
     (\<forall>content pv. co_toPV env content = Inr pv \<and> pv_Name pv = volumeName
        \<longrightarrow> pv_ClaimRef pv = Some claim)"

text \<open>
  \<open>spares\<close>: when the claim is tracked in the first state, it is tracked in the second,
  and the second state has the snapshot records and the calls of \<^verbatim>\<open>CreateSnapshot\<close> for
  the volume that the first has.
\<close>

definition spares :: "string \<times> string \<Rightarrow> string \<Rightarrow> itemBackupper \<Rightarrow> itemBackupper \<Rightarrow> bool" where
  "spares claim volumeName ib ib' =
     (claim \<in> resticSnapshotTracker ib \<longrightarrow>
        claim \<in> resticSnapshotTracker ib'
      \<and> snapshotsOf volumeName ib' = snapshotsOf volumeName ib
      \<and> filter (createsSnapshotOf volumeName) (made ib')
          = filter (createsSnapshotOf volumeName) (made ib))"

text \<open>An additional-item backupper that spares the volume whenever it returns.\<close>

definition sparing :: "string \<times> string \<Rightarrow> string \<Rightarrow> additionalItemBackupper \<Rightarrow> bool" where
  "sparing claim volumeName aib =
     (\<forall>ib obj gr e ib'. aib ib obj gr = Some (e, ib') \<longrightarrow> spares claim volumeName ib ib')"

subsection \<open>A concrete controller, for running the model\<close>

definition backupAt :: "string \<Rightarrow> int \<Rightarrow> backupPhase \<Rightarrow> backup" where
  "backupAt n t ph =
     \<lparr>Backup_Name = n, Backup_Labels = [], Backup_Spec_StorageLocation = ''default'',
      Backup_Status_Phase = ph, Backup_Status_StartTimestamp = t\<rparr>"

definition scheduleBackups :: "backup list" where
  "scheduleBackups =
     [backupAt ''b10'' 10 BackupPhaseCompleted,
      backupAt ''b20'' 20 BackupPhaseFailed,
      backupAt ''b5'' 5 BackupPhaseCompleted]"

definition quietStore :: backupStore where
  "quietStore =
     \<lparr>GetBackupContents = (\<lambda>n. None),
      GetBackupVolumeSnapshots = (\<lambda>n. None),
      PutRestoreLog = (\<lambda>b r. None),
      PutRestoreResults = (\<lambda>b r ws es. None)\<rparr>"

definition noMessages :: result where
  "noMessages = \<lparr>Result_Velero = [], Result_Cluster = [], Result_Namespaces = []\<rparr>"

text \<open>
  A controller whose collaborators all succeed: the schedule \<open>daily\<close> has the three
  backups above, every backup name among them can be fetched, and the restorer reports
  the given errors.
\<close>

definition controllerWith :: "result \<Rightarrow> restoreController" where
  "controllerWith restoreErrors =
     \<lparr>rc_ValidateIncludesExcludes = (\<lambda>incl excl. []),
      rc_List = (\<lambda>s. if s = ''daily'' then Inr scheduleBackups else Inr []),
      rc_Get = (\<lambda>n. case find (\<lambda>b. Backup_Name b = n) scheduleBackups of
                        Some b \<Rightarrow> Inr b
                      | None \<Rightarrow> Inl (Error ''backup not found'')),
      rc_GetLocation = (\<lambda>l. Inr l),
      rc_newBackupStore = (\<lambda>l. Inr quietStore),
      rc_sortSlice = insertionSort,
      rc_Patch = (\<lambda>ns n p. None),
      rc_newRestoreLogger = (\<lambda>r. None),
      rc_GetRestoreItemActions = None,
      rc_TempFile = (\<lambda>n. None),
      rc_Copy = (\<lambda>n. None),
      rc_Seek = (\<lambda>n. None),
      rc_Restore = (\<lambda>r b. (noMessages, restoreErrors)),
      rc_logDone = (\<lambda>r. None)\<rparr>"

definition newRestore :: "string \<Rightarrow> string \<Rightarrow> restore" where
  "newRestore backupName scheduleName =
     \<lparr>Restore_Namespace = ''velero'', Restore_Name = ''r1'',
      Spec_BackupName = backupName, Spec_ScheduleName = scheduleName,
      Spec_IncludedNamespaces = [], Spec_ExcludedNamespaces = [],
      Spec_IncludedResources = [], Spec_ExcludedResources = [],
      Status_Phase = RestorePhaseNew, Status_ValidationErrors = [],
      Status_Warnings = 0, Status_Errors = 0, Status_FailureReason = []\<rparr>"

definition worldOf :: "restore \<Rightarrow> world" where
  "worldOf r = \<lparr>stored = r, calls = []\<rparr>"

definition oneClusterError :: result where
  "oneClusterError = \<lparr>Result_Velero = [], Result_Cluster = [''boom''], Result_Namespaces = []\<rparr>"

subsection \<open>Concrete collaborators, for running the model\<close>

fun joinSlash :: "string list \<Rightarrow> string" where
  "joinSlash [] = []"
| "joinSlash [s] = s"
| "joinSlash (s # t # ss) = s @ ''/'' @ joinSlash (t # ss)"

definition includeAll :: includesExcludes where
  "includeAll = \<lparr>ie_ShouldInclude = (\<lambda>s. True), ie_IncludeEverything = True\<rparr>"

text \<open>An item of the given kind, namespace and name; its content is its name.\<close>

definition item :: "string \<Rightarrow> string \<Rightarrow> string \<Rightarrow> unstructured" where
  "item kind ns n =
     \<lparr>obj_Accessor = Inr \<lparr>meta_Namespace = ns, meta_Name = n,
                           meta_DeletionTimestamp = None, meta_Labels = []\<rparr>,
      obj_GroupVersion = ''v1'', obj_Kind = kind, obj_Content = n\<rparr>"

text \<open>
  A snapshotter that answers \<^verbatim>\<open>GetVolumeID\<close> with the given volume ID and whose
  \<^verbatim>\<open>GetVolumeInfo\<close> and \<^verbatim>\<open>CreateSnapshot\<close> succeed or fail as told.
\<close>

definition snapshotterOf :: "string \<Rightarrow> bool \<Rightarrow> bool \<Rightarrow> volumeSnapshotter" where
  "snapshotterOf volumeID infoOk createOk =
     \<lparr>vs_Init = (\<lambda>config. None),
      vs_GetVolumeID = (\<lambda>obj. Inr volumeID),
      vs_GetVolumeInfo = (\<lambda>vid az. if infoOk then Inr (''gp2'', None)
                                     else Inl (Error ''no volume info'')),
      vs_CreateSnapshot = (\<lambda>vid az tags. if createOk then Inr (''snap-of-'' @ vid)
                                            else Inl (Error ''quota exceeded''))\<rparr>"

text \<open>
  Four providers: A knows no volume, B snapshots \<open>vol-123\<close>, C cannot tell the volume
  info, D fails to create the snapshot.
\<close>

definition providers :: "string \<Rightarrow> error + volumeSnapshotter" where
  "providers p =
     (if p = ''A'' then Inr (snapshotterOf [] True True)
      else if p = ''B'' then Inr (snapshotterOf ''vol-123'' True True)
      else if p = ''C'' then Inr (snapshotterOf ''vol-9'' False True)
      else if p = ''D'' then Inr (snapshotterOf ''vol-7'' True False)
      else Inl (Error ''unknown provider''))"

definition locationOf :: "string \<Rightarrow> volumeSnapshotLocation" where
  "locationOf p = \<lparr>vsl_Name = p, vsl_Provider = p, vsl_Config = []\<rparr>"

text \<open>
  Collaborators that all succeed. A pod named \<open>n\<close> has one volume \<open>data\<close> on the claim
  \<open>n-claim\<close>, which the file-level backup takes; a persistent volume named \<open>n\<close> is bound
  to the claim \<open>n-claim\<close> of namespace \<open>ns1\<close>.
\<close>

definition plainEnv :: collaborators where
  "plainEnv =
     \<lparr>co_handleHooks = (\<lambda>gr obj ph. None),
      co_toPod = (\<lambda>c. Inr \<lparr>pod_Namespace = ''ns1'', pod_Name = c,
                            pod_Volumes = [(''data'', Some (c @ ''-claim''))]\<rparr>),
      co_toPV = (\<lambda>c. Inr \<lparr>pv_Name = c, pv_ClaimRef = Some (''ns1'', c @ ''-claim''),
                           pv_Labels = []\<rparr>),
      co_GetVolumesToBackup = (\<lambda>p. [''data'']),
      co_ResourceFor = (\<lambda>gr. Inr gr),
      co_ClientFor = (\<lambda>gr ns. None),
      co_Get = (\<lambda>gr ns n. Inr (item (gr_Resource gr) ns n)),
      co_resticBackupper = Some (\<lambda>p. ([pod_Name p @ ''-pvb''], [])),
      co_GetVolumeSnapshotter = providers,
      co_WriteHeader = (\<lambda>h. None),
      co_Write = (\<lambda>b. None),
      co_Marshal = (\<lambda>c. Inr c),
      co_Join = joinSlash,
      co_Now = 0\<rparr>"

text \<open>An action for every item that asks for one more item to be backed up.\<close>

definition alsoBackup :: "resourceIdentifier \<Rightarrow> resolvedAction" where
  "alsoBackup other =
     \<lparr>ra_resourceIncludesExcludes = includeAll,
      ra_namespaceIncludesExcludes = includeAll,
      ra_selector = (\<lambda>labels. True),
      ra_Execute = (\<lambda>obj. Inr (obj, [other]))\<rparr>"

text \<open>An action for every item that changes the item's name.\<close>

definition renameTo :: "string \<Rightarrow> resolvedAction" where
  "renameTo n =
     \<lparr>ra_resourceIncludesExcludes = includeAll,
      ra_namespaceIncludesExcludes = includeAll,
      ra_selector = (\<lambda>labels. True),
      ra_Execute = (\<lambda>obj. case obj_Accessor obj of
                             Inr m \<Rightarrow> Inr (obj\<lparr>obj_Accessor := Inr (m\<lparr>meta_Name := n\<rparr>)\<rparr>, [])
                           | Inl e \<Rightarrow> Inr (obj, []))\<rparr>"

text \<open>The item backupper at the start of a run, with the given actions and locations.\<close>

definition freshItemBackupper ::
  "resolvedAction list \<Rightarrow> volumeSnapshotLocation list \<Rightarrow> itemBackupper" where
  "freshItemBackupper actions locations =
     \<lparr>backupRequest =
        \<lparr>req_Name = ''backup1'', req_UID = ''uid1'',
         req_IncludeClusterResources = None, req_SnapshotVolumes = None,
         NamespaceIncludesExcludes = includeAll, ResourceIncludesExcludes = includeAll,
         ResolvedActions = actions, SnapshotLocations = locations,
         VolumeSnapshots = [], PodVolumeBackups = [], BackedUpItems = {}\<rparr>,
      resticSnapshotTracker = {},
      snapshotLocationVolumeSnapshotters = Map.empty,
      made = []\<rparr>"

definition webPod :: unstructured where
  "webPod = item ''pods'' ''ns1'' ''web''"

definition webPodRef :: resourceIdentifier where
  "webPodRef = \<lparr>ri_GroupResource = Pods, ri_Namespace = ''ns1'', ri_Name = ''web''\<rparr>"

definition pvNamed :: "string \<Rightarrow> unstructured" where
  "pvNamed n = item ''persistentvolumes'' [] n"

definition dbPod :: unstructured where
  "dbPod = item ''pods'' ''ns1'' ''db''"

definition configMaps :: groupResource where
  "configMaps = \<lparr>gr_Group = [], gr_Resource = ''configmaps''\<rparr>"

text \<open>The same collaborators, except that every pre hook fails.\<close>

definition failingPreHooks :: collaborators where
  "failingPreHooks =
     plainEnv\<lparr>co_handleHooks :=
       (\<lambda>gr obj ph. if ph = hookPhasePre then Some (Error ''pre hook failed'') else None)\<rparr>"

text \<open>
  Two items backed up in turn, the second in the state the first leaves: the persistent
  volume \<open>web\<close>, with the one location B, and then the pod \<open>web\<close>, whose volume is on the
  claim that the persistent volume is bound to.
\<close>

definition webVolumeFirst :: "(error option \<times> itemBackupper) option" where
  "webVolumeFirst =
     backupItem 0 plainEnv (freshItemBackupper [] [locationOf ''B'']) (pvNamed ''web'')
       PersistentVolumes"

definition webVolumeThenPod :: "(error option \<times> itemBackupper) option" where
  "webVolumeThenPod =
     (case webVolumeFirst of
        None \<Rightarrow> None
      | Some (e, ib1) \<Rightarrow> backupItem 0 plainEnv ib1 webPod Pods)"

text \<open>The reference to the persistent volume \<open>web\<close>, for an action to ask for it.\<close>

definition webVolumeRef :: resourceIdentifier where
  "webVolumeRef = \<lparr>ri_GroupResource = PersistentVolumes, ri_Namespace = [], ri_Name = ''web''\<rparr>"

section \<open>Properties of the restore controller\<close>

subsection \<open>Sorting and the first completed backup\<close>

lemma firstCompleted_None:
  "firstCompleted xs = None \<longleftrightarrow> (\<forall>b \<in> set xs. Backup_Status_Phase b \<noteq> BackupPhaseCompleted)"
  by (induction xs) auto

lemma firstCompleted_Some:
  "sorted_wrt (\<lambda>a b. \<not> startedAfter b a) xs \<Longrightarrow> firstCompleted xs = Some b \<Longrightarrow>
     b \<in> set xs \<and> Backup_Status_Phase b = BackupPhaseCompleted \<and>
     (\<forall>b' \<in> set xs. Backup_Status_Phase b' = BackupPhaseCompleted \<longrightarrow>
        Backup_Status_StartTimestamp b' \<le> Backup_Status_StartTimestamp b)"
  by (induction xs) (auto simp: startedAfter_def split: if_splits)

lemma set_insertBy: "set (insertBy lt x xs) = insert x (set xs)"
  by (induction xs) auto

lemma mset_insertBy: "mset (insertBy lt x xs) = add_mset x (mset xs)"
  by (induction xs) auto

lemma mset_insertionSort: "mset (insertionSort lt xs) = mset xs"
  by (induction xs) (auto simp: mset_insertBy)

lemma sorted_insertBy:
  "sorted_wrt (\<lambda>a b. \<not> startedAfter b a) xs \<Longrightarrow>
     sorted_wrt (\<lambda>a b. \<not> startedAfter b a) (insertBy startedAfter x xs)"
  by (induction xs) (auto simp: set_insertBy startedAfter_def)

lemma sorted_insertionSort:
  "sorted_wrt (\<lambda>a b. \<not> startedAfter b a) (insertionSort startedAfter xs)"
  by (induction xs) (auto simp: sorted_insertBy)

lemma sortSliceOK_insertionSort: "sortSliceOK insertionSort"
  by (simp add: sortSliceOK_def mset_insertionSort sorted_insertionSort)

subsection \<open>Resolving a schedule to a backup\<close>

lemma mostRecent_Some:
  assumes "sortSliceOK srt" and "mostRecentCompletedBackup srt backups = Some b"
  shows "b \<in> set backups \<and> Backup_Status_Phase b = BackupPhaseCompleted \<and>
     (\<forall>b' \<in> set backups. Backup_Status_Phase b' = BackupPhaseCompleted \<longrightarrow>
        Backup_Status_StartTimestamp b' \<le> Backup_Status_StartTimestamp b)"
proof -
  from assms(1) have m: "mset (srt startedAfter backups) = mset backups"
    and s: "sorted_wrt (\<lambda>a b. \<not> startedAfter b a) (srt startedAfter backups)"
    by (simp_all add: sortSliceOK_def)
  from m have e: "set (srt startedAfter backups) = set backups"
    by (rule mset_eq_setD)
  from firstCompleted_Some[OF s] assms(2) e show ?thesis
    by (simp add: mostRecentCompletedBackup_def)
qed

lemma mostRecent_None:
  assumes "sortSliceOK srt"
  shows "mostRecentCompletedBackup srt backups = None \<longleftrightarrow>
     (\<forall>b \<in> set backups. Backup_Status_Phase b \<noteq> BackupPhaseCompleted)"
proof -
  from assms have "mset (srt startedAfter backups) = mset backups"
    by (simp add: sortSliceOK_def)
  then have "set (srt startedAfter backups) = set backups"
    by (rule mset_eq_setD)
  then show ?thesis
    by (simp add: mostRecentCompletedBackup_def firstCompleted_None)
qed

lemma validateLists_names [simp]:
  "Spec_BackupName (validateLists c r) = Spec_BackupName r"
  "Spec_ScheduleName (validateLists c r) = Spec_ScheduleName r"
  by (simp_all add: validateLists_def Let_def)

lemma fetchAndFill_BackupName [simp]:
  "Spec_BackupName (snd (fetchAndFill c r)) = Spec_BackupName r"
  by (simp add: fetchAndFill_def addValidationError_def split: sum.splits prod.splits)

text \<open>
  Claim C6. When a restore names a schedule (and no backup), validation lists the
  schedule's backups and resolves the restore to a backup of phase Completed whose start
  timestamp is greatest among the Completed backups of the schedule: that backup's name
  becomes the restore's \<^verbatim>\<open>Spec.BackupName\<close>. When the schedule has no Completed backup
  (in particular no backup at all) validation records an error and returns no backup
  info. Among the backups T=10 Completed, T=20 Failed, T=5 Completed the one of T=10 is
  selected. This holds for every implementation of \<^verbatim>\<open>sort.Slice\<close> that keeps Go's
  promise.
\<close>

theorem schedule_resolves_to_most_recent_completed:
  assumes srt: "sortSliceOK (rc_sortSlice c)"
    and sched: "Spec_ScheduleName restore \<noteq> []"
    and nobackup: "Spec_BackupName restore = []"
    and listed: "rc_List c (Spec_ScheduleName restore) = Inr backups"
  shows "(if \<exists>b \<in> set backups. Backup_Status_Phase b = BackupPhaseCompleted
          then \<exists>b. mostRecentCompletedBackup (rc_sortSlice c) backups = Some b
                 \<and> b \<in> set backups
                 \<and> Backup_Status_Phase b = BackupPhaseCompleted
                 \<and> (\<forall>b' \<in> set backups. Backup_Status_Phase b' = BackupPhaseCompleted \<longrightarrow>
                       Backup_Status_StartTimestamp b' \<le> Backup_Status_StartTimestamp b)
                 \<and> Spec_BackupName (snd (validateAndComplete c restore)) = Backup_Name b
          else fst (validateAndComplete c restore) = noBackupInfo
             \<and> ''No completed backups found for schedule''
                 \<in> set (Status_ValidationErrors (snd (validateAndComplete c restore)))
             \<and> (backups = [] \<longrightarrow> ''No backups found for schedule''
                 \<in> set (Status_ValidationErrors (snd (validateAndComplete c restore)))))
       \<and> mostRecentCompletedBackup (rc_sortSlice c)
            [backupAt n1 10 BackupPhaseCompleted, backupAt n2 20 BackupPhaseFailed,
             backupAt n3 5 BackupPhaseCompleted]
          = Some (backupAt n1 10 BackupPhaseCompleted)"
proof -
  let ?r = "validateLists c restore"
  have xor: "backupXorScheduleProvided ?r"
    using sched nobackup by (simp add: backupXorScheduleProvided_def)
  have vc: "validateAndComplete c restore =
      (case completeFromSchedule c ?r of Inl r \<Rightarrow> (noBackupInfo, r) | Inr r \<Rightarrow> fetchAndFill c r)"
    using xor sched by (simp add: validateAndComplete_def Let_def)
  let ?v = "validateAndComplete c restore"
  have cfs: "completeFromSchedule c ?r =
      (let r1 = (if length backups = 0
                 then addValidationError ''No backups found for schedule'' ?r else ?r)
       in case mostRecentCompletedBackup (rc_sortSlice c) backups of
            Some b \<Rightarrow> Inr (r1\<lparr>Spec_BackupName := Backup_Name b\<rparr>)
          | None \<Rightarrow> Inl (addValidationError ''No completed backups found for schedule'' r1))"
    using listed by (simp add: completeFromSchedule_def)
  have some: "\<exists>b. mostRecentCompletedBackup (rc_sortSlice c) backups = Some b
                 \<and> b \<in> set backups
                 \<and> Backup_Status_Phase b = BackupPhaseCompleted
                 \<and> (\<forall>b' \<in> set backups. Backup_Status_Phase b' = BackupPhaseCompleted \<longrightarrow>
                       Backup_Status_StartTimestamp b' \<le> Backup_Status_StartTimestamp b)
                 \<and> Spec_BackupName (snd ?v) = Backup_Name b"
    if ex: "\<exists>b \<in> set backups. Backup_Status_Phase b = BackupPhaseCompleted"
  proof -
    from ex mostRecent_None[OF srt, of backups]
    obtain b where b: "mostRecentCompletedBackup (rc_sortSlice c) backups = Some b"
      by (cases "mostRecentCompletedBackup (rc_sortSlice c) backups") auto
    from mostRecent_Some[OF srt b] b show ?thesis
      by (simp add: vc cfs Let_def)
  qed
  have none: "fst ?v = noBackupInfo
             \<and> ''No completed backups found for schedule'' \<in> set (Status_ValidationErrors (snd ?v))
             \<and> (backups = [] \<longrightarrow> ''No backups found for schedule''
                 \<in> set (Status_ValidationErrors (snd ?v)))"
    if no: "\<not> (\<exists>b \<in> set backups. Backup_Status_Phase b = BackupPhaseCompleted)"
  proof -
    from no mostRecent_None[OF srt, of backups]
    have mr: "mostRecentCompletedBackup (rc_sortSlice c) backups = None" by simp
    show ?thesis
      unfolding vc cfs mr by (simp add: Let_def addValidationError_def)
  qed
  let ?ex = "[backupAt n1 10 BackupPhaseCompleted, backupAt n2 20 BackupPhaseFailed,
             backupAt n3 5 BackupPhaseCompleted]"
  have example: "mostRecentCompletedBackup (rc_sortSlice c) ?ex
          = Some (backupAt n1 10 BackupPhaseCompleted)"
  proof -
    from mostRecent_None[OF srt, of ?ex]
    obtain b where b: "mostRecentCompletedBackup (rc_sortSlice c) ?ex = Some b"
      by (cases "mostRecentCompletedBackup (rc_sortSlice c) ?ex") (auto simp: backupAt_def)
    from mostRecent_Some[OF srt b] have "b = backupAt n1 10 BackupPhaseCompleted"
      by (auto simp: backupAt_def)
    with b show ?thesis by simp
  qed
  from some none example show ?thesis by simp
qed

text \<open>The schedule \<open>daily\<close> of the concrete controller resolves to the backup \<open>b10\<close>.\<close>

theorem schedule_resolves_witness:
  "sortSliceOK (rc_sortSlice (controllerWith noMessages))
   \<and> Spec_ScheduleName (newRestore [] ''daily'') \<noteq> []
   \<and> Spec_BackupName (newRestore [] ''daily'') = []
   \<and> rc_List (controllerWith noMessages) (Spec_ScheduleName (newRestore [] ''daily''))
        = Inr scheduleBackups
   \<and> mostRecentCompletedBackup (rc_sortSlice (controllerWith noMessages)) scheduleBackups
        = Some (backupAt ''b10'' 10 BackupPhaseCompleted)
   \<and> Spec_BackupName (snd (validateAndComplete (controllerWith noMessages) (newRestore [] ''daily'')))
        = ''b10''"
proof -
  have h1: "sortSliceOK (rc_sortSlice (controllerWith noMessages))"
    by (simp add: controllerWith_def sortSliceOK_insertionSort)
  have h2: "Spec_ScheduleName (newRestore [] ''daily'') \<noteq> []"
    by (simp add: newRestore_def)
  have h3: "Spec_BackupName (newRestore [] ''daily'') = []"
    by (simp add: newRestore_def)
  have h4: "rc_List (controllerWith noMessages) (Spec_ScheduleName (newRestore [] ''daily''))
        = Inr scheduleBackups"
    by (simp add: newRestore_def controllerWith_def)
  have ts: "\<And>b. b \<in> set scheduleBackups \<Longrightarrow> Backup_Status_Phase b = BackupPhaseCompleted \<Longrightarrow>
     10 \<le> Backup_Status_StartTimestamp b \<Longrightarrow> b = backupAt ''b10'' 10 BackupPhaseCompleted"
    by (auto simp: scheduleBackups_def backupAt_def)
  have c10: "backupAt ''b10'' 10 BackupPhaseCompleted \<in> set scheduleBackups"
    by (simp add: scheduleBackups_def)
  have cond: "\<exists>b \<in> set scheduleBackups. Backup_Status_Phase b = BackupPhaseCompleted"
    using c10 by (rule bexI[rotated]) (simp add: backupAt_def)
  from schedule_resolves_to_most_recent_completed[OF h1 h2 h3 h4, of "''a''" "''b''" "''c''"]
  have "\<exists>b. mostRecentCompletedBackup (rc_sortSlice (controllerWith noMessages)) scheduleBackups = Some b
                 \<and> b \<in> set scheduleBackups
                 \<and> Backup_Status_Phase b = BackupPhaseCompleted
                 \<and> (\<forall>b' \<in> set scheduleBackups. Backup_Status_Phase b' = BackupPhaseCompleted \<longrightarrow>
                       Backup_Status_StartTimestamp b' \<le> Backup_Status_StartTimestamp b)
                 \<and> Spec_BackupName (snd (validateAndComplete (controllerWith noMessages) (newRestore [] ''daily''))) = Backup_Name b"
    using cond by (simp only: if_True simp_thms)
  then obtain b where b: "mostRecentCompletedBackup (rc_sortSlice (controllerWith noMessages)) scheduleBackups = Some b"
     "b \<in> set scheduleBackups" "Backup_Status_Phase b = BackupPhaseCompleted"
     "\<forall>b' \<in> set scheduleBackups. Backup_Status_Phase b' = BackupPhaseCompleted \<longrightarrow>
                       Backup_Status_StartTimestamp b' \<le> Backup_Status_StartTimestamp b"
     "Spec_BackupName (snd (validateAndComplete (controllerWith noMessages) (newRestore [] ''daily''))) = Backup_Name b"
    by blast
  from b(4) c10 have "10 \<le> Backup_Status_StartTimestamp b"
    by (auto simp: backupAt_def)
  with ts b(2,3) have "b = backupAt ''b10'' 10 BackupPhaseCompleted" by blast
  with b(1,5) h1 h2 h3 h4 show ?thesis by (simp add: backupAt_def)
qed


subsection \<open>Exactly one of backup and schedule\<close>

lemma patch_phase:
  "Status_Phase original \<noteq> ph \<Longrightarrow>
   p_Phase (CreateMergePatch original (r\<lparr>Status_Phase := ph\<rparr>)) = Some ph"
  by (simp add: CreateMergePatch_def changed_def)

lemma apply_phase:
  "p_Phase p = Some ph \<Longrightarrow> Status_Phase (applyMergePatch p r) = ph"
  by (simp add: applyMergePatch_def merged_def)

text \<open>
  Claim C5. A restore that names both a backup and a schedule, or neither, and that is
  still new: validation records the message "Either a backup or schedule must be
  specified as a source for the restore, but not both" and returns no backup info; the
  controller then makes exactly one patch, which carries the phase FailedValidation,
  registers the validation failure and returns. The stored phase becomes
  FailedValidation when the patch is accepted and is left as it was when the patch is
  refused (the error is returned). Neither way is the restore executed or patched to
  InProgress: the calls made are exactly the five listed.
\<close>

theorem xor_violation_fails_validation:
  assumes bad: "(Spec_BackupName restore \<noteq> [] \<and> Spec_ScheduleName restore \<noteq> [])
              \<or> (Spec_BackupName restore = [] \<and> Spec_ScheduleName restore = [])"
    and new: "Status_Phase restore = RestorePhaseNew \<or> Status_Phase restore = RestorePhaseUnset"
  shows "\<exists>r1 p sched.
      validateAndComplete c restore = (noBackupInfo, r1)
    \<and> Status_ValidationErrors r1 = Status_ValidationErrors (validateLists c restore) @
        [''Either a backup or schedule must be specified as a source for the restore, but not both'']
    \<and> p = CreateMergePatch restore (r1\<lparr>Status_Phase := RestorePhaseFailedValidation\<rparr>)
    \<and> p_Phase p = Some RestorePhaseFailedValidation
    \<and> processRestore c restore w =
        Some (case rc_Patch c (Restore_Namespace restore) (Restore_Name restore) p of
                None \<Rightarrow> None
              | Some err \<Rightarrow> Some (Wrap ''error updating Restore phase to FailedValidation''
                                   (Wrap ''error patching restore'' err)),
              \<lparr>stored = (case rc_Patch c (Restore_Namespace restore) (Restore_Name restore) p of
                           None \<Rightarrow> applyMergePatch p (stored w)
                         | Some err \<Rightarrow> stored w),
               calls = calls w @ [NewPluginManager, CleanupClients, RegisterRestoreAttempt sched,
                                  RegisterRestoreValidationFailed sched, PatchCall p]\<rparr>)
    \<and> Status_Phase (applyMergePatch p (stored w)) = RestorePhaseFailedValidation"
proof -
  let ?msg = "''Either a backup or schedule must be specified as a source for the restore, but not both''"
  let ?r1 = "addValidationError ?msg (validateLists c restore)"
  let ?p = "CreateMergePatch restore (?r1\<lparr>Status_Phase := RestorePhaseFailedValidation\<rparr>)"
  from bad have nx: "\<not> backupXorScheduleProvided restore"
    by (auto simp: backupXorScheduleProvided_def)
  have nx': "\<not> backupXorScheduleProvided (validateLists c restore)"
    using bad by (auto simp: backupXorScheduleProvided_def)
  have v: "validateAndComplete c restore = (noBackupInfo, ?r1)"
    using nx' by (simp add: validateAndComplete_def Let_def)
  have ve: "Status_ValidationErrors ?r1 = Status_ValidationErrors (validateLists c restore) @ [?msg]"
    by (simp add: addValidationError_def)
  from new have pp: "p_Phase ?p = Some RestorePhaseFailedValidation"
    by (intro patch_phase) auto
  have ap: "Status_Phase (applyMergePatch ?p (stored w)) = RestorePhaseFailedValidation"
    using pp by (rule apply_phase)
  have pr: "processRestore c restore w =
        Some (case rc_Patch c (Restore_Namespace restore) (Restore_Name restore) ?p of
                None \<Rightarrow> None
              | Some err \<Rightarrow> Some (Wrap ''error updating Restore phase to FailedValidation''
                                   (Wrap ''error patching restore'' err)),
              \<lparr>stored = (case rc_Patch c (Restore_Namespace restore) (Restore_Name restore) ?p of
                           None \<Rightarrow> applyMergePatch ?p (stored w)
                         | Some err \<Rightarrow> stored w),
               calls = calls w @ [NewPluginManager, CleanupClients, RegisterRestoreAttempt (Spec_ScheduleName ?r1),
                                  RegisterRestoreValidationFailed (Spec_ScheduleName ?r1), PatchCall ?p]\<rparr>)"
    using ap by (simp add: processRestore_def v ve patchRestore_def called_def Let_def split: option.splits)
  from v ve pp pr ap show ?thesis by blast
qed


text \<open>A restore naming both \<open>b10\<close> and the schedule \<open>daily\<close> ends in FailedValidation.\<close>

theorem xor_violation_witness:
  "((Spec_BackupName (newRestore ''b10'' ''daily'') \<noteq> []
       \<and> Spec_ScheduleName (newRestore ''b10'' ''daily'') \<noteq> [])
     \<or> (Spec_BackupName (newRestore ''b10'' ''daily'') = []
       \<and> Spec_ScheduleName (newRestore ''b10'' ''daily'') = []))
   \<and> (Status_Phase (newRestore ''b10'' ''daily'') = RestorePhaseNew
        \<or> Status_Phase (newRestore ''b10'' ''daily'') = RestorePhaseUnset)
   \<and> (\<exists>w'. processRestore (controllerWith noMessages) (newRestore ''b10'' ''daily'')
               (worldOf (newRestore ''b10'' ''daily'')) = Some (None, w')
           \<and> Status_Phase (stored w') = RestorePhaseFailedValidation
           \<and> length (calls w') = 5)"
proof -
  let ?r = "newRestore ''b10'' ''daily''"
  let ?c = "controllerWith noMessages"
  have h1: "(Spec_BackupName ?r \<noteq> [] \<and> Spec_ScheduleName ?r \<noteq> [])
     \<or> (Spec_BackupName ?r = [] \<and> Spec_ScheduleName ?r = [])"
    by (simp add: newRestore_def)
  have h2: "Status_Phase ?r = RestorePhaseNew \<or> Status_Phase ?r = RestorePhaseUnset"
    by (simp add: newRestore_def)
  have np: "\<And>p. rc_Patch ?c (Restore_Namespace ?r) (Restore_Name ?r) p = None"
    by (simp add: controllerWith_def)
  from xor_violation_fails_validation[OF h1 h2, of ?c "worldOf ?r"] h1 h2
  show ?thesis
    by (auto simp: np worldOf_def)
qed

subsection \<open>The final phase\<close>

lemma validated_has_store:
  assumes "validateAndComplete c restore = (info, r1)" and "Status_ValidationErrors r1 = []"
  shows "\<exists>store. info_backupStore info = Some store"
  using assms
  by (auto simp: validateAndComplete_def Let_def addValidationError_def fetchAndFill_def
        completeFromSchedule_def
      split: if_splits sum.splits option.splits prod.splits)

lemma runRestoreSteps_Some:
  "info_backupStore info = Some store \<Longrightarrow> \<exists>rv r2 w2. runRestoreSteps c r info w = Some (rv, r2, w2) \<and> stored w2 = stored w"
  by (auto simp: runRestoreSteps_def Let_def called_def split: option.splits prod.splits)

lemma runValidatedRestore_Some:
  "info_backupStore info = Some store \<Longrightarrow> \<exists>rv r2 w2. runValidatedRestore c r info w = Some (rv, r2, w2) \<and> stored w2 = stored w"
  using runRestoreSteps_Some[of info store c r "called NewPluginManager w"]
  by (auto simp: runValidatedRestore_def called_def split: option.splits)

lemma runValidatedRestore_phase:
  "runValidatedRestore c r info w = Some (rv, r2, w2) \<Longrightarrow> Status_Phase r2 = Status_Phase r"
  by (auto simp: runValidatedRestore_def runRestoreSteps_def Let_def split: option.splits prod.splits)

text \<open>
  Claim C7. Once validation has passed and the patch to InProgress has been accepted,
  \<open>runValidatedRestore\<close> returns (it does not panic), and the final phase is Failed when it
  returned an error, else PartiallyFailed when \<^verbatim>\<open>Status.Errors\<close> is positive, else
  Completed. The final patch carries that phase; \<open>processRestore\<close> returns nil whether or
  not the final patch is accepted, and the stored phase is the final phase when it is
  accepted and stays InProgress when it is refused.
\<close>

theorem final_phase_after_in_progress:
  assumes v: "validateAndComplete c restore = (info, r1)"
    and valid: "Status_ValidationErrors r1 = []"
    and new: "Status_Phase restore = RestorePhaseNew \<or> Status_Phase restore = RestorePhaseUnset"
    and patched: "patchRestore c restore (r1\<lparr>Status_Phase := RestorePhaseInProgress\<rparr>)
                    (called (RegisterRestoreAttempt (Spec_ScheduleName r1))
                       (called CleanupClients (called NewPluginManager w)))
                  = (Inr updated, w1)"
  shows "Status_Phase updated = RestorePhaseInProgress
    \<and> Status_Phase (stored w1) = RestorePhaseInProgress
    \<and> (\<exists>rv r2 w2 final metric w3.
          runValidatedRestore c updated info w1 = Some (rv, r2, w2)
        \<and> Status_Phase final =
            (if rv \<noteq> None then RestorePhaseFailed
             else if 0 < Status_Errors r2 then RestorePhasePartiallyFailed
             else RestorePhaseCompleted)
        \<and> p_Phase (CreateMergePatch updated final) = Some (Status_Phase final)
        \<and> processRestore c restore w = Some (None, w3)
        \<and> calls w3 = calls w2 @ [metric, PatchCall (CreateMergePatch updated final)]
        \<and> Status_Phase (stored w3) =
            (if rc_Patch c (Restore_Namespace updated) (Restore_Name updated)
                  (CreateMergePatch updated final) = None
             then Status_Phase final else RestorePhaseInProgress))"
proof -
  let ?w0 = "called (RegisterRestoreAttempt (Spec_ScheduleName r1))
                       (called CleanupClients (called NewPluginManager w))"
  let ?p1 = "CreateMergePatch restore (r1\<lparr>Status_Phase := RestorePhaseInProgress\<rparr>)"
  from new have pp: "p_Phase ?p1 = Some RestorePhaseInProgress"
    by (intro patch_phase) auto
  from patched have upd: "updated = applyMergePatch ?p1 (stored ?w0)" and st1: "stored w1 = updated"
    by (auto simp: patchRestore_def Let_def called_def split: option.splits)
  from pp have ph: "Status_Phase updated = RestorePhaseInProgress"
    unfolding upd by (rule apply_phase)
  from validated_has_store[OF v valid] obtain store where "info_backupStore info = Some store" ..
  from runValidatedRestore_Some[OF this, of c updated w1]
  obtain rv r2 w2 where run: "runValidatedRestore c updated info w1 = Some (rv, r2, w2)"
    and st2: "stored w2 = stored w1" by blast
  from runValidatedRestore_phase[OF run] ph have ph2: "Status_Phase r2 = RestorePhaseInProgress" by simp
  obtain final w2' where dec: "decidePhase rv r2 (Spec_ScheduleName r1) w2 = (final, w2')"
    by (cases "decidePhase rv r2 (Spec_ScheduleName r1) w2")
  from dec have fin: "Status_Phase final =
            (if rv \<noteq> None then RestorePhaseFailed
             else if 0 < Status_Errors r2 then RestorePhasePartiallyFailed
             else RestorePhaseCompleted)"
    by (auto simp: decidePhase_def split: option.splits if_splits)
  from dec obtain metric where w2': "w2' = w2\<lparr>calls := calls w2 @ [metric]\<rparr>"
    by (auto simp: decidePhase_def called_def split: option.splits if_splits)
  from fin ph have "Status_Phase updated \<noteq> Status_Phase final" by (auto split: if_splits)
  then have pf: "p_Phase (CreateMergePatch updated final) = Some (Status_Phase final)"
    by (simp add: CreateMergePatch_def changed_def)
  obtain res w3 where p2: "patchRestore c updated final w2' = (res, w3)"
    by (cases "patchRestore c updated final w2'")
  have pr: "processRestore c restore w = Some (None, w3)"
    using patched ph run dec p2
    by (simp add: processRestore_def v valid Let_def executeAndFinish_def)
  from p2 have cs: "calls w3 = calls w2 @ [metric, PatchCall (CreateMergePatch updated final)]"
    by (auto simp: patchRestore_def Let_def called_def w2' split: option.splits)
  from p2 have sp: "Status_Phase (stored w3) =
            (if rc_Patch c (Restore_Namespace updated) (Restore_Name updated)
                  (CreateMergePatch updated final) = None
             then Status_Phase final else RestorePhaseInProgress)"
    using apply_phase[OF pf, of "stored w2"] st2 st1 ph
    by (auto simp: patchRestore_def Let_def called_def w2' split: option.splits)
  from ph st1 run fin pf pr cs sp show ?thesis by blast
qed


text \<open>With one error reported by the restorer the restore ends PartiallyFailed.\<close>

theorem final_phase_witness:
  "Status_ValidationErrors (snd (validateAndComplete (controllerWith oneClusterError) (newRestore ''b10'' []))) = []
   \<and> (Status_Phase (newRestore ''b10'' []) = RestorePhaseNew
        \<or> Status_Phase (newRestore ''b10'' []) = RestorePhaseUnset)
   \<and> (\<exists>w3. processRestore (controllerWith oneClusterError) (newRestore ''b10'' [])
               (worldOf (newRestore ''b10'' [])) = Some (None, w3)
           \<and> Status_Phase (stored w3) = RestorePhasePartiallyFailed)"
proof -
  let ?c = "controllerWith oneClusterError"
  let ?r = "newRestore ''b10'' []"
  let ?w = "worldOf ?r"
  let ?info = "fst (validateAndComplete ?c ?r)"
  let ?r1 = "snd (validateAndComplete ?c ?r)"
  have h1: "validateAndComplete ?c ?r = (?info, ?r1)" by simp
  have h2: "Status_ValidationErrors ?r1 = []"
    by (simp add: validateAndComplete_def validateLists_def Let_def newRestore_def
          backupXorScheduleProvided_def fetchAndFill_def fetchBackupInfo_def controllerWith_def
          scheduleBackups_def backupAt_def)
  have h3: "Status_Phase ?r = RestorePhaseNew \<or> Status_Phase ?r = RestorePhaseUnset"
    by (simp add: newRestore_def)
  obtain updated w1 where h4: "patchRestore ?c ?r (?r1\<lparr>Status_Phase := RestorePhaseInProgress\<rparr>)
                    (called (RegisterRestoreAttempt (Spec_ScheduleName ?r1))
                       (called CleanupClients (called NewPluginManager ?w)))
                  = (Inr updated, w1)"
    by (simp add: patchRestore_def Let_def controllerWith_def newRestore_def)
  have np: "\<And>ns n p. rc_Patch ?c ns n p = None"
    by (simp add: controllerWith_def)
  have errs: "\<And>r info w rv r2 w2. runValidatedRestore ?c r info w = Some (rv, r2, w2) \<Longrightarrow> info_backupStore info = Some quietStore \<Longrightarrow>
      rv = None \<and> Status_Errors r2 = 1"
    by (auto simp: runValidatedRestore_def runRestoreSteps_def controllerWith_def quietStore_def
          downloadToTempFile_def Let_def countMessages_def oneClusterError_def split: option.splits)
  have store: "info_backupStore ?info = Some quietStore"
    by (simp add: validateAndComplete_def validateLists_def Let_def newRestore_def
          backupXorScheduleProvided_def fetchAndFill_def fetchBackupInfo_def controllerWith_def
          scheduleBackups_def backupAt_def)
  from final_phase_after_in_progress[OF h1 h2 h3 h4] errs[OF _ store] h2 h3
  show ?thesis
    by (auto simp: np)
qed


section \<open>Properties of the item backupper\<close>

subsection \<open>What a call leaves as it was\<close>

lemma writtenKeys_append: "writtenKeys (xs @ ys) = writtenKeys xs @ writtenKeys ys"
  by (induction xs rule: writtenKeys.induct) auto

lemma sameItems_refl [simp]: "sameItems ib ib"
  by (simp add: sameItems_def)

lemma sameItems_trans: "sameItems a b \<Longrightarrow> sameItems b c \<Longrightarrow> sameItems a c"
  by (simp add: sameItems_def)

lemma sameItems_volumeSnapshotter:
  "volumeSnapshotter env loc ib = (r, ib') \<Longrightarrow> sameItems ib ib'"
  by (auto simp: volumeSnapshotter_def sameItems_def logged_def Let_def writtenKeys_append
      split: option.splits sum.splits)

lemma sameItems_findVolumeSnapshotter:
  "findVolumeSnapshotter env obj locs ib = (r, ib') \<Longrightarrow> sameItems ib ib'"
proof (induction locs arbitrary: ib)
  case Nil
  then show ?case by simp
next
  case (Cons loc locs)
  obtain r1 ib1 where vs: "volumeSnapshotter env loc ib = (r1, ib1)"
    by (cases "volumeSnapshotter env loc ib")
  have s1: "sameItems ib ib1" using vs by (rule sameItems_volumeSnapshotter)
  have s2: "sameItems ib1 (logged (GetVolumeIDCall (vsl_Name loc)) ib1)"
    by (simp add: sameItems_def logged_def writtenKeys_append)
  show ?case
    using Cons.prems Cons.IH vs s1 s2
    by (auto simp: Let_def split: sum.splits if_splits intro: sameItems_trans)
qed

lemma sameItems_snapshotAt:
  "snapshotAt pv z vid loc bs ib = (r, ib') \<Longrightarrow> sameItems ib ib'"
  by (auto simp: snapshotAt_def sameItems_def logged_def Let_def writtenKeys_append
      split: sum.splits prod.splits)

lemma sameItems_takePVSnapshot:
  "takePVSnapshot env obj ib = (r, ib') \<Longrightarrow> sameItems ib ib'"
  by (auto simp: takePVSnapshot_def Let_def
      split: if_splits sum.splits prod.splits option.splits
      dest: sameItems_findVolumeSnapshotter sameItems_snapshotAt intro: sameItems_trans)

lemma sameItems_backupPodVolumes:
  "backupPodVolumes env p vols ib = (r, ib') \<Longrightarrow> sameItems ib ib'"
  by (auto simp: backupPodVolumes_def sameItems_def logged_def writtenKeys_append
      split: if_splits option.splits)

lemma sameItems_trackPodVolumes:
  "trackPodVolumes env obj gr ib = (r, ib') \<Longrightarrow> sameItems ib ib'"
  by (auto simp: trackPodVolumes_def sameItems_def Track_def Let_def
      split: if_splits sum.splits)


lemma grows_refl [simp]: "grows ib ib"
  by (simp add: grows_def)

lemma sameItems_grows: "sameItems ib ib' \<Longrightarrow> grows ib ib'"
  by (simp add: grows_def sameItems_def)

lemma grows_trans:
  assumes "grows a b" and "grows b c"
  shows "grows a c"
proof -
  from assms(1) obtain ws1 where 1: "BackedUpItems (backupRequest a) \<subseteq> BackedUpItems (backupRequest b)"
    "writtenKeys (made b) = writtenKeys (made a) @ ws1" "distinct ws1"
    "set ws1 \<subseteq> BackedUpItems (backupRequest b) - BackedUpItems (backupRequest a)"
    by (auto simp: grows_def)
  from assms(2) obtain ws2 where 2: "BackedUpItems (backupRequest b) \<subseteq> BackedUpItems (backupRequest c)"
    "writtenKeys (made c) = writtenKeys (made b) @ ws2" "distinct ws2"
    "set ws2 \<subseteq> BackedUpItems (backupRequest c) - BackedUpItems (backupRequest b)"
    by (auto simp: grows_def)
  have "writtenKeys (made c) = writtenKeys (made a) @ (ws1 @ ws2)" using 1 2 by simp
  moreover have "distinct (ws1 @ ws2)" using 1 2 by auto
  moreover have "set (ws1 @ ws2) \<subseteq> BackedUpItems (backupRequest c) - BackedUpItems (backupRequest a)"
    using 1 2 by auto
  moreover have "BackedUpItems (backupRequest a) \<subseteq> BackedUpItems (backupRequest c)" using 1 2 by auto
  ultimately show ?thesis unfolding grows_def by blast
qed

lemma sameItems_logged:
  "\<forall>k h. e \<noteq> WriteHeaderCall k h \<Longrightarrow> sameItems ib (logged e ib)"
  by (cases e) (simp_all add: sameItems_def logged_def writtenKeys_append)

lemma grows_backupAdditionalItems:
  assumes "growing aib"
  shows "backupAdditionalItems aib env items ib = Some (e, ib') \<Longrightarrow> grows ib ib'"
proof (induction items arbitrary: ib)
  case Nil
  then show ?case by simp
next
  case (Cons item items)
  let ?log = "\<lambda>gvr. logged (GetCall gvr (ri_Namespace item) (ri_Name item)) ib"
  have lg: "\<And>gvr. grows ib (?log gvr)"
    by (intro sameItems_grows sameItems_logged) simp
  have step: "\<And>gvr it e2 ib2. aib (?log gvr) it gvr = Some (e2, ib2) \<Longrightarrow> grows ib ib2"
    using assms lg unfolding growing_def by (blast intro: grows_trans)
  show ?case
    using Cons.prems lg
    apply (auto simp: Let_def split: sum.splits option.splits prod.splits)
    using Cons.IH step grows_trans apply blast+
    done
qed

lemma grows_executeActions:
  assumes "growing aib"
  shows "executeActions aib env obj gr name ns metadata actions ib = Some (r, ib') \<Longrightarrow> grows ib ib'"
proof (induction actions arbitrary: ib obj)
  case Nil
  then show ?case by simp
next
  case (Cons action actions)
  have lg: "grows ib (logged (ExecuteCall obj) ib)"
    by (intro sameItems_grows sameItems_logged) simp
  have step: "\<And>ids e2 ib2. backupAdditionalItems aib env ids (logged (ExecuteCall obj) ib) = Some (e2, ib2)
       \<Longrightarrow> grows ib ib2"
    using grows_backupAdditionalItems[OF assms] lg by (blast intro: grows_trans)
  show ?case
    using Cons.prems lg
    apply (auto simp: Let_def split: if_splits sum.splits option.splits prod.splits)
    using Cons.IH step grows_trans apply blast+
    done
qed


lemma archiveItem_effect:
  assumes "archiveItem env key obj gr name ns ib = (e, ib')"
  shows "BackedUpItems (backupRequest ib') = BackedUpItems (backupRequest ib)
       \<and> (writtenKeys (made ib') = writtenKeys (made ib)
            \<or> writtenKeys (made ib') = writtenKeys (made ib) @ [key])"
  using assms
  by (auto simp: archiveItem_def Let_def logged_def writtenKeys_append
      split: sum.splits option.splits)

lemma afterActions_effect:
  assumes "afterActions env key obj gr errs0 podOpt vols ib = (e, ib')"
  shows "BackedUpItems (backupRequest ib') = BackedUpItems (backupRequest ib)
       \<and> (writtenKeys (made ib') = writtenKeys (made ib)
            \<or> writtenKeys (made ib') = writtenKeys (made ib) @ [key])"
proof (cases "obj_Accessor obj")
  case (Inl err)
  with assms show ?thesis by (simp add: afterActions_def)
next
  case (Inr metadata)
  obtain errs1 ib1 where pv: "(if gr = PersistentVolumes
                  then (case takePVSnapshot env obj ib of
                          (Some err, ib') \<Rightarrow> (errs0 @ [err], ib')
                        | (None, ib') \<Rightarrow> (errs0, ib'))
                  else (errs0, ib)) = (errs1, ib1)"
    by (cases "(if gr = PersistentVolumes
                  then (case takePVSnapshot env obj ib of
                          (Some err, ib') \<Rightarrow> (errs0 @ [err], ib')
                        | (None, ib') \<Rightarrow> (errs0, ib'))
                  else (errs0, ib))")
  have s1: "sameItems ib ib1"
    using pv by (auto split: if_splits prod.splits option.splits dest: sameItems_takePVSnapshot)
  obtain errs2 ib2 where pvb: "(case podOpt of
                    Some p \<Rightarrow>
                      if gr = Pods
                      then (case backupPodVolumes env p vols ib1 of
                              ((podVolumeBackups, errs), ib') \<Rightarrow>
                                (errs1 @ errs,
                                 ib'\<lparr>backupRequest := (backupRequest ib')
                                       \<lparr>PodVolumeBackups := podVolumeBackups\<rparr>\<rparr>))
                      else (errs1, ib1)
                  | None \<Rightarrow> (errs1, ib1)) = (errs2, ib2)"
    by (cases "(case podOpt of
                    Some p \<Rightarrow>
                      if gr = Pods
                      then (case backupPodVolumes env p vols ib1 of
                              ((podVolumeBackups, errs), ib') \<Rightarrow>
                                (errs1 @ errs,
                                 ib'\<lparr>backupRequest := (backupRequest ib')
                                       \<lparr>PodVolumeBackups := podVolumeBackups\<rparr>\<rparr>))
                      else (errs1, ib1)
                  | None \<Rightarrow> (errs1, ib1))")
  have s2: "sameItems ib1 ib2"
    using pvb
    by (auto simp: sameItems_def split: option.splits if_splits prod.splits
        dest!: sameItems_backupPodVolumes)
  let ?ib3 = "logged (HandleHooksCall hookPhasePost gr obj) ib2"
  have s3: "sameItems ib2 ?ib3" by (intro sameItems_logged) simp
  have s: "sameItems ib ?ib3" using s1 s2 s3 by (blast intro: sameItems_trans)
  from assms Inr pv pvb have "ib' = ?ib3 \<or> (\<exists>e. archiveItem env key obj gr (meta_Name metadata) (meta_Namespace metadata) ?ib3 = (e, ib'))"
    by (auto simp: afterActions_def Let_def split: if_splits)
  then show ?thesis
    using s archiveItem_effect[of env key obj gr "meta_Name metadata" "meta_Namespace metadata" ?ib3]
    by (auto simp: sameItems_def)
qed

lemma processItem_effect:
  assumes g: "growing aib"
    and run: "processItem aib env key obj gr metadata ib = Some (e, ib')"
  shows "\<exists>mid. grows ib mid
       \<and> BackedUpItems (backupRequest ib') = BackedUpItems (backupRequest mid)
       \<and> (writtenKeys (made ib') = writtenKeys (made mid)
            \<or> writtenKeys (made ib') = writtenKeys (made mid) @ [key])"
proof -
  let ?ib1 = "logged (HandleHooksCall hookPhasePre gr obj) ib"
  have s1: "sameItems ib ?ib1" by (intro sameItems_logged) simp
  show ?thesis
  proof (cases "co_handleHooks env gr obj hookPhasePre")
    case (Some err)
    with run have "ib' = ?ib1" by (simp add: processItem_def Let_def)
    with s1 show ?thesis by (intro exI[of _ ib']) (simp add: sameItems_grows)
  next
    case None
    obtain errs podOpt vols ib2 where tr: "trackPodVolumes env obj gr ?ib1 = ((errs, podOpt, vols), ib2)"
      by (cases "trackPodVolumes env obj gr ?ib1") auto
    from tr have s2: "sameItems ?ib1 ib2" by (rule sameItems_trackPodVolumes)
    from run None tr obtain r ib3 where ex: "executeActions aib env obj gr (meta_Name metadata)
          (meta_Namespace metadata) metadata (ResolvedActions (backupRequest ib2)) ib2 = Some (r, ib3)"
      by (auto simp: processItem_def Let_def split: option.splits)
    from grows_executeActions[OF g ex] have g3: "grows ib2 ib3" .
    have g03: "grows ib ib3"
      using s1 s2 g3 by (blast intro: grows_trans sameItems_grows sameItems_trans)
    show ?thesis
    proof (cases r)
      case (Inl err)
      let ?ib4 = "logged (HandleHooksCall hookPhasePost gr obj) ib3"
      from run None tr ex Inl have "ib' = ?ib4" by (simp add: processItem_def Let_def)
      moreover have "sameItems ib3 ?ib4" by (intro sameItems_logged) simp
      ultimately show ?thesis using g03
        by (intro exI[of _ ib3]) (simp add: sameItems_def)
    next
      case (Inr updatedObj)
      from run None tr ex Inr have "afterActions env key updatedObj gr errs podOpt vols ib3 = (e, ib')"
        by (simp add: processItem_def Let_def)
      from afterActions_effect[OF this] g03 show ?thesis
        by (intro exI[of _ ib3]) simp
    qed
  qed
qed

lemma grows_backupItemWith:
  assumes g: "growing aib"
    and run: "backupItemWith aib env ib obj gr = Some (e, ib')"
  shows "grows ib ib'"
proof (cases "obj_Accessor obj")
  case (Inl err)
  with run show ?thesis by (simp add: backupItemWith_def)
next
  case (Inr metadata)
  let ?key = "keyOf obj metadata"
  let ?B = "BackedUpItems (backupRequest ib)"
  show ?thesis
  proof (cases "excluded ib metadata gr \<or> ?key \<in> ?B")
    case True
    with run Inr show ?thesis by (auto simp: backupItemWith_def Let_def split: if_splits)
  next
    case False
    let ?ib1 = "ib\<lparr>backupRequest := (backupRequest ib)\<lparr>BackedUpItems := insert ?key ?B\<rparr>\<rparr>"
    from run Inr False have "processItem aib env ?key obj gr metadata ?ib1 = Some (e, ib')"
      by (simp add: backupItemWith_def Let_def)
    from processItem_effect[OF g this] obtain mid where
      m: "grows ?ib1 mid" "BackedUpItems (backupRequest ib') = BackedUpItems (backupRequest mid)"
         "writtenKeys (made ib') = writtenKeys (made mid)
            \<or> writtenKeys (made ib') = writtenKeys (made mid) @ [?key]"
      by blast
    from m(1) obtain ws where ws: "insert ?key ?B \<subseteq> BackedUpItems (backupRequest mid)"
      "writtenKeys (made mid) = writtenKeys (made ib) @ ws" "distinct ws"
      "set ws \<subseteq> BackedUpItems (backupRequest mid) - insert ?key ?B"
      by (auto simp: grows_def)
    from m(3) show ?thesis
    proof
      assume "writtenKeys (made ib') = writtenKeys (made mid)"
      with ws m(2) show ?thesis unfolding grows_def by (intro conjI exI[of _ ws]) auto
    next
      assume "writtenKeys (made ib') = writtenKeys (made mid) @ [?key]"
      with ws m(2) False show ?thesis unfolding grows_def by (intro conjI exI[of _ "ws @ [?key]"]) auto
    qed
  qed
qed

lemma growing_backupItem: "growing (backupItem n env)"
proof (induction n)
  case 0
  have "growing (\<lambda>ib' obj' gr'. None)" by (simp add: growing_def)
  from grows_backupItemWith[OF this] show ?case by (simp add: growing_def)
next
  case (Suc n)
  from grows_backupItemWith[OF Suc] show ?case by (simp add: growing_def)
qed


subsection \<open>The bound on nesting\<close>

text \<open>
  A bound on the nesting of calls for additional items that suffices for a call to
  return can be raised without changing what the call returns.
\<close>

lemma backupAdditionalItems_extends:
  assumes "extends a b"
  shows "backupAdditionalItems a env items ib = Some r \<Longrightarrow> backupAdditionalItems b env items ib = Some r"
proof (induction items arbitrary: ib)
  case Nil
  then show ?case by simp
next
  case (Cons item items)
  show ?case
    using Cons.prems assms
    apply (auto simp: Let_def extends_def split: sum.splits option.splits prod.splits)
    using Cons.IH apply fastforce+
    done
qed

lemma executeActions_extends:
  assumes "extends a b"
  shows "executeActions a env obj gr name ns metadata actions ib = Some r
     \<Longrightarrow> executeActions b env obj gr name ns metadata actions ib = Some r"
proof (induction actions arbitrary: ib obj)
  case Nil
  then show ?case by simp
next
  case (Cons action actions)
  show ?case
    using Cons.prems backupAdditionalItems_extends[OF assms]
    apply (auto simp: Let_def split: if_splits sum.splits option.splits prod.splits)
    using Cons.IH apply fastforce+
    done
qed

lemma backupItemWith_extends:
  assumes "extends a b"
  shows "backupItemWith a env ib obj gr = Some r \<Longrightarrow> backupItemWith b env ib obj gr = Some r"
  using executeActions_extends[OF assms]
  by (auto simp: backupItemWith_def processItem_def Let_def
      split: sum.splits option.splits prod.splits if_splits)

lemma backupItem_Suc:
  "backupItem n env ib obj gr = Some r \<Longrightarrow> backupItem (Suc n) env ib obj gr = Some r"
proof (induction n arbitrary: ib obj gr r)
  case 0
  have "extends (\<lambda>ib' obj' gr'. None) (backupItem 0 env)" by (simp add: extends_def)
  from backupItemWith_extends[OF this] 0 show ?case by simp
next
  case (Suc n)
  have "extends (backupItem n env) (backupItem (Suc n) env)"
    unfolding extends_def using Suc.IH by blast
  from backupItemWith_extends[OF this] Suc.prems show ?case by simp
qed

lemma backupItem_more:
  "backupItem n env ib obj gr = Some r \<Longrightarrow> n \<le> k \<Longrightarrow> backupItem k env ib obj gr = Some r"
  by (induction k) (auto simp: le_Suc_eq dest: backupItem_Suc simp del: backupItem.simps)

subsection \<open>Every key is written at most once\<close>

lemma backupItemWith_known_key:
  assumes "obj_Accessor obj = Inr metadata"
    and "keyOf obj metadata \<in> BackedUpItems (backupRequest ib)"
  shows "backupItemWith aib env ib obj gr = Some (None, ib)"
  using assms by (simp add: backupItemWith_def Let_def)

lemma backupItem_known_key:
  assumes "obj_Accessor obj = Inr metadata"
    and "keyOf obj metadata \<in> BackedUpItems (backupRequest ib)"
  shows "backupItem k env ib obj gr = Some (None, ib)"
  using assms by (cases k) (simp_all add: backupItemWith_known_key)

lemma processItem_keeps_key:
  assumes g: "growing aib"
    and run: "processItem aib env key obj gr metadata ib = Some (e, ib')"
  shows "BackedUpItems (backupRequest ib) \<subseteq> BackedUpItems (backupRequest ib')"
  using processItem_effect[OF g run] by (auto simp: grows_def)

lemma backupItemWith_records:
  assumes g: "growing aib"
    and run: "backupItemWith aib env ib obj gr = Some (e, ib')"
    and acc: "obj_Accessor obj = Inr metadata"
    and inc: "\<not> excluded ib metadata gr"
  shows "keyOf obj metadata \<in> BackedUpItems (backupRequest ib')"
proof (cases "keyOf obj metadata \<in> BackedUpItems (backupRequest ib)")
  case True
  with run acc inc show ?thesis by (simp add: backupItemWith_def Let_def)
next
  case False
  let ?ib1 = "ib\<lparr>backupRequest := (backupRequest ib)
                 \<lparr>BackedUpItems := insert (keyOf obj metadata) (BackedUpItems (backupRequest ib))\<rparr>\<rparr>"
  from run acc inc False
  have "processItem aib env (keyOf obj metadata) obj gr metadata ?ib1 = Some (e, ib')"
    by (simp add: backupItemWith_def Let_def)
  from processItem_keeps_key[OF g this] show ?thesis by auto
qed

lemma backupItem_records:
  assumes run: "backupItem n env ib obj gr = Some (e, ib')"
    and acc: "obj_Accessor obj = Inr metadata"
    and inc: "\<not> excluded ib metadata gr"
  shows "keyOf obj metadata \<in> BackedUpItems (backupRequest ib')"
proof (cases n)
  case 0
  have "growing (\<lambda>ib' obj' gr'. None)" by (simp add: growing_def)
  from backupItemWith_records[OF this _ acc inc] run 0 show ?thesis by simp
next
  case (Suc m)
  from backupItemWith_records[OF growing_backupItem _ acc inc] run Suc show ?thesis by simp
qed

text \<open>
  Claim C1. Take a call of \<open>backupItem\<close> that returns, for an item that is not left out
  by the four exclusion checks, in a state where every key has at most one header
  written and every such key is recorded. Then (1) no key has left \<^verbatim>\<open>BackedUpItems\<close>;
  (2) the item's key is recorded; (3) in every state that holds at least the keys
  recorded now (every later state of the run, by (1)), a call for an item of the same
  key returns nil and leaves the whole state as it is, whatever the bound on nesting:
  nothing is processed and nothing is written; (4) still every key has at most one
  header written, and every such key is recorded.
\<close>

theorem backupItem_writes_a_key_at_most_once:
  assumes first: "backupItem n env ib obj gr = Some (e, ib1)"
    and acc: "obj_Accessor obj = Inr metadata"
    and inc: "\<not> excluded ib metadata gr"
    and dist: "distinct (writtenKeys (made ib))"
    and sub: "set (writtenKeys (made ib)) \<subseteq> BackedUpItems (backupRequest ib)"
    and later: "BackedUpItems (backupRequest ib1) \<subseteq> BackedUpItems (backupRequest ibLater)"
    and accAgain: "obj_Accessor objAgain = Inr metadataAgain"
    and same: "keyOf objAgain metadataAgain = keyOf obj metadata"
  shows "BackedUpItems (backupRequest ib) \<subseteq> BackedUpItems (backupRequest ib1)
       \<and> keyOf obj metadata \<in> BackedUpItems (backupRequest ib1)
       \<and> backupItem k env ibLater objAgain grAgain = Some (None, ibLater)
       \<and> distinct (writtenKeys (made ib1))
       \<and> set (writtenKeys (made ib1)) \<subseteq> BackedUpItems (backupRequest ib1)"
proof -
  from growing_backupItem[of n env] first have g: "grows ib ib1"
    by (simp add: growing_def)
  then have mono: "BackedUpItems (backupRequest ib) \<subseteq> BackedUpItems (backupRequest ib1)"
    by (simp add: grows_def)
  from backupItem_records[OF first acc inc]
  have rec: "keyOf obj metadata \<in> BackedUpItems (backupRequest ib1)" .
  with later same have "keyOf objAgain metadataAgain \<in> BackedUpItems (backupRequest ibLater)" by auto
  from backupItem_known_key[OF accAgain this]
  have second: "backupItem k env ibLater objAgain grAgain = Some (None, ibLater)" .
  from g obtain ws where ws: "writtenKeys (made ib1) = writtenKeys (made ib) @ ws" "distinct ws"
      "set ws \<subseteq> BackedUpItems (backupRequest ib1) - BackedUpItems (backupRequest ib)"
    by (auto simp: grows_def)
  from ws dist sub have d1: "distinct (writtenKeys (made ib1))" by auto
  from ws sub mono have s1: "set (writtenKeys (made ib1)) \<subseteq> BackedUpItems (backupRequest ib1)" by auto
  from mono rec second d1 s1 show ?thesis by simp
qed

text \<open>The definitions to unfold when the model is run on a concrete input.\<close>

lemmas run_defs =
  backupItemWith_def processItem_def afterActions_def archiveItem_def
  trackPodVolumes_def backupPodVolumes_def Track_def Has_def claimsOf_def excluded_def keyOf_def
  resourceKey_def takePVSnapshot_def snapshotAt_def volumeSnapshotter_def volumeSnapshot_def
  GroupResource_String_def logged_def Let_def NewAggregate_def labelOf_def zoneLabel_def
  Pods_def PersistentVolumes_def Namespaces_def
  ResourcesDir_def NamespaceScopedDir_def ClusterScopedDir_def

lemmas example_defs =
  plainEnv_def freshItemBackupper_def alsoBackup_def renameTo_def webPod_def webPodRef_def
  item_def includeAll_def providers_def snapshotterOf_def locationOf_def pvNamed_def dbPod_def configMaps_def failingPreHooks_def

text \<open>
  A pod whose action asks for the pod itself: the nested call finds the key, the pod is
  written once, and a second call changes nothing.
\<close>

theorem backupItem_at_most_once_witness:
  "\<exists>ib1. backupItem 1 plainEnv (freshItemBackupper [alsoBackup webPodRef] []) webPod Pods
            = Some (None, ib1)
      \<and> \<lparr>key_resource = ''v1/pods'', key_namespace = ''ns1'', key_name = ''web''\<rparr>
          \<in> BackedUpItems (backupRequest ib1)
      \<and> backupItem 0 plainEnv ib1 webPod Pods = Some (None, ib1)
      \<and> distinct (writtenKeys (made ib1))"
proof -
  let ?ib = "freshItemBackupper [alsoBackup webPodRef] []"
  let ?m = "\<lparr>meta_Namespace = ''ns1'', meta_Name = ''web'',
             meta_DeletionTimestamp = None, meta_Labels = []\<rparr>"
  obtain ib1 where first: "backupItem 1 plainEnv ?ib webPod Pods = Some (None, ib1)"
    by (simp add: run_defs example_defs)
  have acc: "obj_Accessor webPod = Inr ?m" by (simp add: webPod_def item_def)
  have inc: "\<not> excluded ?ib ?m Pods"
    by (simp add: excluded_def freshItemBackupper_def includeAll_def)
  have dist: "distinct (writtenKeys (made ?ib))" by (simp add: freshItemBackupper_def)
  have sub: "set (writtenKeys (made ?ib)) \<subseteq> BackedUpItems (backupRequest ?ib)"
    by (simp add: freshItemBackupper_def)
  have later: "BackedUpItems (backupRequest ib1) \<subseteq> BackedUpItems (backupRequest ib1)" by simp
  have key: "keyOf webPod ?m = \<lparr>key_resource = ''v1/pods'', key_namespace = ''ns1'', key_name = ''web''\<rparr>"
    by (simp add: keyOf_def resourceKey_def webPod_def item_def)
  from backupItem_writes_a_key_at_most_once[OF first acc inc dist sub later acc refl, where k = 0 and grAgain = Pods]
    first key
  show ?thesis by auto
qed


subsection \<open>Volumes taken by the file-level backup\<close>


subsection \<open>The loop over the snapshot locations\<close>



lemma volumeSnapshotter_made:
  "volumeSnapshotter env loc ib = (r, ib') \<Longrightarrow>
     \<exists>evs. made ib' = made ib @ evs
        \<and> (\<forall>e \<in> set evs. snapshotterCallAt e = Some (vsl_Name loc) \<and> \<not> asksInfoOrSnapshot e)
        \<and> backupRequest ib' = backupRequest ib \<and> resticSnapshotTracker ib' = resticSnapshotTracker ib"
  by (auto simp: volumeSnapshotter_def logged_def Let_def split: option.splits sum.splits)

lemma findVolumeSnapshotter_made:
  "findVolumeSnapshotter env obj locs ib = (r, ib') \<Longrightarrow>
     \<exists>evs. made ib' = made ib @ evs
        \<and> (\<forall>e \<in> set evs. (\<exists>l \<in> set locs. snapshotterCallAt e = Some (vsl_Name l))
                         \<and> \<not> asksInfoOrSnapshot e)
        \<and> backupRequest ib' = backupRequest ib \<and> resticSnapshotTracker ib' = resticSnapshotTracker ib"
proof (induction locs arbitrary: ib)
  case Nil
  then show ?case by simp
next
  case (Cons loc locs)
  obtain r1 ib1 where vs: "volumeSnapshotter env loc ib = (r1, ib1)"
    by (cases "volumeSnapshotter env loc ib")
  from volumeSnapshotter_made[OF vs] obtain evs1 where
    e1: "made ib1 = made ib @ evs1"
        "\<forall>e \<in> set evs1. snapshotterCallAt e = Some (vsl_Name loc) \<and> \<not> asksInfoOrSnapshot e"
        "backupRequest ib1 = backupRequest ib" "resticSnapshotTracker ib1 = resticSnapshotTracker ib"
    by blast
  let ?ib2 = "logged (GetVolumeIDCall (vsl_Name loc)) ib1"
  let ?evs2 = "evs1 @ [GetVolumeIDCall (vsl_Name loc)]"
  have e2: "made ?ib2 = made ib @ ?evs2"
       "\<forall>e \<in> set ?evs2. snapshotterCallAt e = Some (vsl_Name loc) \<and> \<not> asksInfoOrSnapshot e"
       "backupRequest ?ib2 = backupRequest ib" "resticSnapshotTracker ?ib2 = resticSnapshotTracker ib"
    using e1 by (auto simp: logged_def)
  consider (skip1) "findVolumeSnapshotter env obj locs ib1 = (r, ib')"
    | (skip2) "findVolumeSnapshotter env obj locs ?ib2 = (r, ib')"
    | (win) "ib' = ?ib2"
    using Cons.prems vs by (auto simp: Let_def split: sum.splits if_splits)
  then show ?case
  proof cases
    case skip1
    from Cons.IH[OF skip1] obtain evs where
      "made ib' = made ib1 @ evs"
      "\<forall>e \<in> set evs. (\<exists>l \<in> set locs. snapshotterCallAt e = Some (vsl_Name l)) \<and> \<not> asksInfoOrSnapshot e"
      "backupRequest ib' = backupRequest ib1" "resticSnapshotTracker ib' = resticSnapshotTracker ib1"
      by blast
    with e1 show ?thesis by (intro exI[of _ "evs1 @ evs"]) auto
  next
    case skip2
    from Cons.IH[OF skip2] obtain evs where
      "made ib' = made ?ib2 @ evs"
      "\<forall>e \<in> set evs. (\<exists>l \<in> set locs. snapshotterCallAt e = Some (vsl_Name l)) \<and> \<not> asksInfoOrSnapshot e"
      "backupRequest ib' = backupRequest ?ib2" "resticSnapshotTracker ib' = resticSnapshotTracker ?ib2"
      by blast
    with e2 show ?thesis by (intro exI[of _ "?evs2 @ evs"]) auto
  next
    case win
    with e2 show ?thesis by (intro exI[of _ ?evs2]) auto
  qed
qed




lemma takePVSnapshot_unfold:
  assumes enabled: "req_SnapshotVolumes (backupRequest ib) \<noteq> Some False"
    and pv: "co_toPV env (obj_Content obj) = Inr pv"
    and untracked: "\<forall>ns n. pv_ClaimRef pv = Some (ns, n) \<longrightarrow> (ns, n) \<notin> resticSnapshotTracker ib"
  shows "takePVSnapshot env obj ib =
     (case findVolumeSnapshotter env obj (SnapshotLocations (backupRequest ib)) ib of
        (None, ib1) \<Rightarrow> (None, ib1)
      | (Some (volumeID, location, bs), ib1) \<Rightarrow>
          snapshotAt pv (labelOf (pv_Labels pv) zoneLabel) volumeID location bs ib1)"
  using assms by (auto simp: takePVSnapshot_def Has_def Let_def split: option.splits)






subsection \<open>Snapshot records\<close>

text \<open>
  Claim C4, as amended. On a winning location the snapshotter is first asked for the
  volume info. When that fails, \<open>takePVSnapshot\<close> returns the error wrapped in "error
  getting volume info", \<^verbatim>\<open>CreateSnapshot\<close> is not called and no record is appended. When
  it succeeds, \<^verbatim>\<open>CreateSnapshot\<close> is called once and exactly one record is appended: with
  phase Failed, together with the returned error "error taking snapshot of volume",
  when the provider fails, and with phase Completed and the provider's snapshot ID,
  together with a nil return, when it succeeds.
\<close>

theorem one_record_per_snapshot_attempt:
  assumes enabled: "req_SnapshotVolumes (backupRequest ib) \<noteq> Some False"
    and pv: "co_toPV env (obj_Content obj) = Inr pv"
    and untracked: "\<forall>ns n. pv_ClaimRef pv = Some (ns, n) \<longrightarrow> (ns, n) \<notin> resticSnapshotTracker ib"
    and win: "findVolumeSnapshotter env obj (SnapshotLocations (backupRequest ib)) ib
                = (Some (volumeID, location, bs), ib1)"
    and zone: "zone = labelOf (pv_Labels pv) zoneLabel"
    and tags: "tags = [(''velero.io/backup'', req_Name (backupRequest ib)),
                       (''velero.io/pv'', pv_Name pv)]"
  shows "case vs_GetVolumeInfo bs volumeID zone of
           Inl err \<Rightarrow>
               takePVSnapshot env obj ib
                 = (Some (Wrap ''error getting volume info'' err),
                    logged (GetVolumeInfoCall location volumeID zone) ib1)
             \<and> VolumeSnapshots (backupRequest (snd (takePVSnapshot env obj ib)))
                 = VolumeSnapshots (backupRequest ib)
         | Inr (volumeType, iops) \<Rightarrow>
             (\<exists>snap ib'.
                 VolumeSnapshots (backupRequest ib') = VolumeSnapshots (backupRequest ib) @ [snap]
               \<and> made ib' = made ib1 @ [GetVolumeInfoCall location volumeID zone,
                                        CreateSnapshotCall location volumeID zone tags]
               \<and> snap_Location snap = location
               \<and> snap_PersistentVolumeName snap = pv_Name pv
               \<and> snap_ProviderVolumeID snap = volumeID
               \<and> snap_VolumeType snap = volumeType
               \<and> snap_VolumeIOPS snap = iops
               \<and> (case vs_CreateSnapshot bs volumeID zone tags of
                     Inl err \<Rightarrow>
                         takePVSnapshot env obj ib
                           = (Some (Aggregate [Wrap ''error taking snapshot of volume'' err]), ib')
                       \<and> snap_Phase snap = SnapshotPhaseFailed
                       \<and> snap_ProviderSnapshotID snap = []
                   | Inr snapshotID \<Rightarrow>
                         takePVSnapshot env obj ib = (None, ib')
                       \<and> snap_Phase snap = SnapshotPhaseCompleted
                       \<and> snap_ProviderSnapshotID snap = snapshotID))"
proof -
  from findVolumeSnapshotter_made[OF win]
  have req: "backupRequest ib1 = backupRequest ib" by blast
  have tk: "takePVSnapshot env obj ib = snapshotAt pv zone volumeID location bs ib1"
    using takePVSnapshot_unfold[OF enabled pv untracked] win zone by simp
  show ?thesis
  proof (cases "vs_GetVolumeInfo bs volumeID zone")
    case (Inl err)
    then show ?thesis
      by (simp add: tk snapshotAt_def Let_def logged_def req)
  next
    case (Inr info)
    obtain volumeType iops where info: "info = (volumeType, iops)" by (cases info)
    show ?thesis
    proof (cases "vs_CreateSnapshot bs volumeID zone tags")
      case (Inl err)
      with Inr info show ?thesis
        by (simp add: tk snapshotAt_def Let_def logged_def req volumeSnapshot_def
              NewAggregate_def tags)
    next
      case (Inr snapshotID)
      with \<open>vs_GetVolumeInfo bs volumeID zone = Inr info\<close> info show ?thesis
        by (simp add: tk snapshotAt_def Let_def logged_def req volumeSnapshot_def
              NewAggregate_def tags)
    qed
  qed
qed


text \<open>
  Location D, whose provider fails to create the snapshot: the error is returned and
  the one record appended has phase Failed.
\<close>

theorem snapshot_failure_witness:
  "req_SnapshotVolumes (backupRequest (freshItemBackupper [] [locationOf ''D''])) \<noteq> Some False
   \<and> co_toPV plainEnv (obj_Content (pvNamed ''pv1''))
       = Inr \<lparr>pv_Name = ''pv1'', pv_ClaimRef = Some (''ns1'', ''pv1-claim''), pv_Labels = []\<rparr>
   \<and> (''ns1'', ''pv1-claim'') \<notin> resticSnapshotTracker (freshItemBackupper [] [locationOf ''D''])
   \<and> fst (takePVSnapshot plainEnv (pvNamed ''pv1'') (freshItemBackupper [] [locationOf ''D'']))
       = Some (Aggregate [Wrap ''error taking snapshot of volume'' (Error ''quota exceeded'')])
   \<and> map snap_Phase (VolumeSnapshots (backupRequest (snd (takePVSnapshot plainEnv
        (pvNamed ''pv1'') (freshItemBackupper [] [locationOf ''D''])))))
       = [SnapshotPhaseFailed]"
proof -
  let ?ib = "freshItemBackupper [] [locationOf ''D'']"
  let ?obj = "pvNamed ''pv1''"
  let ?pv = "\<lparr>pv_Name = ''pv1'', pv_ClaimRef = Some (''ns1'', ''pv1-claim''), pv_Labels = []\<rparr>"
  let ?tags = "[(''velero.io/backup'', req_Name (backupRequest ?ib)), (''velero.io/pv'', pv_Name ?pv)]"
  have enabled: "req_SnapshotVolumes (backupRequest ?ib) \<noteq> Some False"
    by (simp add: example_defs)
  have pv: "co_toPV plainEnv (obj_Content ?obj) = Inr ?pv"
    by (simp add: example_defs)
  have untracked: "\<forall>ns n. pv_ClaimRef ?pv = Some (ns, n) \<longrightarrow> (ns, n) \<notin> resticSnapshotTracker ?ib"
    by (simp add: example_defs)
  obtain ib1 where win: "findVolumeSnapshotter plainEnv ?obj (SnapshotLocations (backupRequest ?ib)) ?ib
      = (Some (''vol-7'', ''D'', snapshotterOf ''vol-7'' True False), ib1)"
    by (simp add: run_defs example_defs)
  have info: "vs_GetVolumeInfo (snapshotterOf ''vol-7'' True False) ''vol-7'' (labelOf (pv_Labels ?pv) zoneLabel)
     = Inr (''gp2'', None)"
    by (simp add: snapshotterOf_def)
  have create: "vs_CreateSnapshot (snapshotterOf ''vol-7'' True False) ''vol-7'' (labelOf (pv_Labels ?pv) zoneLabel) ?tags
     = Inl (Error ''quota exceeded'')"
    by (simp add: snapshotterOf_def)
  from one_record_per_snapshot_attempt[OF enabled pv untracked win refl refl]
  obtain snap ib' where
    r: "VolumeSnapshots (backupRequest ib') = VolumeSnapshots (backupRequest ?ib) @ [snap]"
       "takePVSnapshot plainEnv ?obj ?ib
          = (Some (Aggregate [Wrap ''error taking snapshot of volume'' (Error ''quota exceeded'')]), ib')"
       "snap_Phase snap = SnapshotPhaseFailed"
    unfolding info create by auto
  have "VolumeSnapshots (backupRequest ?ib) = []" by (simp add: example_defs)
  with r enabled pv untracked show ?thesis by simp
qed

text \<open>
  Claim C4 as it is stated fails at location C, whose provider returns the volume ID
  \<open>vol-9\<close> and then cannot tell the volume info: C is the winning location,
  \<open>takePVSnapshot\<close> returns an error, and no record is appended.
\<close>

theorem volume_info_failure_counterexample:
  "fst (findVolumeSnapshotter plainEnv (pvNamed ''pv1'')
          (SnapshotLocations (backupRequest (freshItemBackupper [] [locationOf ''C''])))
          (freshItemBackupper [] [locationOf ''C'']))
     = Some (''vol-9'', ''C'', snapshotterOf ''vol-9'' False True)
   \<and> fst (takePVSnapshot plainEnv (pvNamed ''pv1'') (freshItemBackupper [] [locationOf ''C'']))
       = Some (Wrap ''error getting volume info'' (Error ''no volume info''))
   \<and> VolumeSnapshots (backupRequest (snd (takePVSnapshot plainEnv (pvNamed ''pv1'')
        (freshItemBackupper [] [locationOf ''C''])))) = []"
  by (simp add: run_defs example_defs)

subsection \<open>The list of pod volume backups\<close>

text \<open>
  Claim C9 does not hold of the code: line 1097 assigns the list returned for the pod at
  hand to \<^verbatim>\<open>PodVolumeBackups\<close>. After the pods \<open>web\<close> and \<open>db\<close> have been backed up in
  turn, each with one volume backed up, the list holds the reference for \<open>db\<close> alone.
\<close>

theorem pod_volume_backups_overwritten:
  "\<exists>ib1 ib2.
      backupItem 0 plainEnv (freshItemBackupper [] []) webPod Pods = Some (None, ib1)
    \<and> PodVolumeBackups (backupRequest ib1) = [''web-pvb'']
    \<and> backupItem 0 plainEnv ib1 dbPod Pods = Some (None, ib2)
    \<and> PodVolumeBackups (backupRequest ib2) = [''db-pvb'']"
  by (simp add: run_defs example_defs)


subsection \<open>The archive path\<close>









subsection \<open>Hooks and accumulated errors\<close>













end
